theory Spec2Isabelle
  imports Complex_Main
begin

section \<open>Data model (types.ts)\<close>

text \<open>
  JavaScript numbers are idealised as real numbers throughout: rounding, NaN and the
  signed zero of IEEE arithmetic are outside this development. JavaScript strings are
  \<^typ>\<open>string\<close>, one \<^typ>\<open>char\<close> per code unit below 256.
\<close>

record ModelDimensions =
  width :: real
  height :: real
  depth :: real
  volume :: real

datatype Role = User | Ai

text \<open>The field \<open>isError\<close> is optional in the source: \<open>None\<close> is an entry without it.\<close>

record AnalysisMessage =
  role :: Role
  content :: string
  isError :: "bool option"

datatype ViewerMode = VIEW | MEASURE | AI_ANALYSIS | ALIGN

section \<open>Strings\<close>

text \<open>
  \<open>String.prototype.trim\<close> strips white space and line terminators from both ends.
  Of the code units below 256 these are tab, line feed, vertical tab, form feed,
  carriage return, space and the no-break space.
\<close>

definition isWhiteSpace :: "char \<Rightarrow> bool" where
  "isWhiteSpace c =
     (c = CHR 0x09 \<or> c = CHR 0x0A \<or> c = CHR 0x0B \<or> c = CHR 0x0C \<or> c = CHR 0x0D
      \<or> c = CHR 0x20 \<or> c = CHR 0xA0)"

definition trim :: "string \<Rightarrow> string" where
  "trim s = rev (dropWhile isWhiteSpace (rev (dropWhile isWhiteSpace s)))"

text \<open>A prompt is blank when it is empty or consists of white space only.\<close>

definition blank :: "string \<Rightarrow> bool" where
  "blank s = list_all isWhiteSpace s"

text \<open>\<open>s.split(sep)\<close> for a one-character separator: never the empty array.\<close>

fun split :: "char \<Rightarrow> string \<Rightarrow> string list" where
  "split sep [] = [[]]"
| "split sep (c # cs) =
     (if c = sep then [] # split sep cs
      else (case split sep cs of
              [] \<Rightarrow> [[c]]
            | p # ps \<Rightarrow> (c # p) # ps))"

text \<open>\<open>a || b\<close> on strings, where \<open>a\<close> may be undefined: the empty string is falsy.\<close>

definition orElse :: "string option \<Rightarrow> string \<Rightarrow> string" where
  "orElse a b = (case a of None \<Rightarrow> b | Some s \<Rightarrow> if s = [] then b else s)"

section \<open>The AI service (services/geminiService.ts)\<close>

text \<open>
  The request handed to \<open>ai.models.generateContent\<close>. The provider is a parameter of
  the model: a function from the request to the outcome of the promise, which either
  resolves with a response whose \<open>text\<close> may be undefined, or rejects with an error
  whose \<open>message\<close> may be undefined.
\<close>

record GenerateContentRequest =
  modelId :: string
  mimeType :: string
  inlineData :: string
  promptPart :: string
  systemInstruction :: string
  thinkingBudget :: int

datatype GenerateContentOutcome = Resolved "string option" | Rejected "string option"

datatype Error = Error (message: string)

definition cleanBase64 :: "string \<Rightarrow> string" where
  "cleanBase64 base64Image =
     (case split CHR '','' base64Image of
        _ # p # _ \<Rightarrow> orElse (Some p) base64Image
      | _ \<Rightarrow> base64Image)"

definition makeRequest :: "string \<Rightarrow> string \<Rightarrow> GenerateContentRequest" where
  "makeRequest base64Image promptText =
     \<lparr> modelId = ''gemini-3-flash-preview'',
       mimeType = ''image/png'',
       inlineData = cleanBase64 base64Image,
       promptPart = promptText,
       systemInstruction = ''You are an expert 3D printing engineer and industrial designer. Analyze the provided image of a 3D model. Provide concise, technical insights about geometry, potential 3D printing challenges (overhangs, bed adhesion), and guess what the object is.'',
       thinkingBudget = 0 \<rparr>"

text \<open>
  \<open>analyzeModelImage\<close> returns the text of the response, or throws (\<open>Inl\<close>) a new
  error carrying the provider's message or a fallback. The second component is the list
  of requests sent to the provider.
\<close>

definition analyzeModelImage ::
  "(GenerateContentRequest \<Rightarrow> GenerateContentOutcome) \<Rightarrow> string \<Rightarrow> string
     \<Rightarrow> (Error + string) \<times> GenerateContentRequest list" where
  "analyzeModelImage generateContent base64Image promptText =
     (let request = makeRequest base64Image promptText in
      (case generateContent request of
         Resolved txt \<Rightarrow> Inr (orElse txt ''No analysis could be generated.'')
       | Rejected msg \<Rightarrow> Inl (Error (orElse msg ''Failed to analyze image.'')),
       [request]))"

section \<open>The chat handler (components/Sidebar.tsx)\<close>

record Sidebar_state =
  messages :: "AnalysisMessage list"
  isAnalyzing :: bool
  prompt :: string

definition initialSidebar :: Sidebar_state where
  "initialSidebar = \<lparr> messages = [], isAnalyzing = False, prompt = [] \<rparr>"

definition loadFirstMessage :: AnalysisMessage where
  "loadFirstMessage =
     \<lparr> role = Ai, content = ''Please load a 3D model first to analyze it.'',
       isError = Some True \<rparr>"

definition failedMessage :: AnalysisMessage where
  "failedMessage =
     \<lparr> role = Ai, content = ''Failed to analyze the model.'', isError = Some True \<rparr>"

definition userMessage :: "string \<Rightarrow> AnalysisMessage" where
  "userMessage s = \<lparr> role = User, content = s, isError = None \<rparr>"

definition aiMessage :: "string \<Rightarrow> AnalysisMessage" where
  "aiMessage s = \<lparr> role = Ai, content = s, isError = None \<rparr>"

definition defaultPrompt :: string where
  "defaultPrompt = ''What is this object and what are the 3D printing considerations?''"

definition pushMessage :: "AnalysisMessage \<Rightarrow> Sidebar_state \<Rightarrow> Sidebar_state" where
  "pushMessage m st = st\<lparr> messages := messages st @ [m] \<rparr>"

text \<open>
  \<open>handleSendMessage\<close>, run to completion: the arguments are the provider, what
  \<open>getCanvasScreenshot()\<close> returns (\<open>None\<close> for null) and the state of the panel;
  the result is the new state and the requests that went out.
\<close>

definition handleSendMessage ::
  "(GenerateContentRequest \<Rightarrow> GenerateContentOutcome) \<Rightarrow> string option
     \<Rightarrow> Sidebar_state \<Rightarrow> Sidebar_state \<times> GenerateContentRequest list" where
  "handleSendMessage generateContent getCanvasScreenshot st =
     (if trim (prompt st) = [] \<and> length (messages st) > 0 then (st, [])
      else
        (case getCanvasScreenshot of
           None \<Rightarrow> (pushMessage loadFirstMessage st, [])
         | Some screenshot \<Rightarrow>
             if screenshot = [] then (pushMessage loadFirstMessage st, [])
             else
               (let currentPrompt = orElse (Some (trim (prompt st))) defaultPrompt;
                    st1 = st\<lparr> prompt := [], isAnalyzing := True \<rparr>;
                    st2 = (if trim (prompt st) \<noteq> [] then pushMessage (userMessage currentPrompt) st1
                           else if length (messages st) = 0
                             then pushMessage (userMessage ''Analyze this model.'') st1
                           else st1);
                    (res, sent) = analyzeModelImage generateContent screenshot currentPrompt;
                    st3 = (case res of
                             Inr response \<Rightarrow> pushMessage (aiMessage response) st2
                           | Inl err \<Rightarrow> pushMessage failedMessage st2)
                in (st3\<lparr> isAnalyzing := False \<rparr>, sent))))"

text \<open>Providers and inputs used at concrete points below.\<close>

definition quotaProvider :: "GenerateContentRequest \<Rightarrow> GenerateContentOutcome" where
  "quotaProvider request = Rejected (Some ''quota exceeded'')"

definition echoProvider :: "GenerateContentRequest \<Rightarrow> GenerateContentOutcome" where
  "echoProvider request = Resolved (Some (promptPart request))"

definition pngShot :: string where
  "pngShot = ''data:image/png;base64,iVBORw0KGgo=''"

definition askedOnce :: Sidebar_state where
  "askedOnce = \<lparr> messages = [loadFirstMessage], isAnalyzing = False, prompt = [] \<rparr>"

definition typedHello :: Sidebar_state where
  "typedHello = \<lparr> messages = [], isAnalyzing = False, prompt = '' hello '' \<rparr>"

section \<open>Vectors, quaternions, matrices and boxes (three.js)\<close>

text \<open>
  The operations of the three.js library that the viewer calls, written out as the
  library computes them, over the reals. A \<open>Matrix4\<close> is its array of sixteen
  elements in column-major order.
\<close>

datatype Vector3 = Vector3 (vx: real) (vy: real) (vz: real)

datatype Quaternion = Quaternion (qx: real) (qy: real) (qz: real) (qw: real)

type_synonym Matrix4 = "real list"

text \<open>\<open>Number.EPSILON\<close>, the gap between 1 and the next double.\<close>

definition Number_EPSILON :: real where
  "Number_EPSILON = 1 / 2 ^ 52"

fun Vector3_dot :: "Vector3 \<Rightarrow> Vector3 \<Rightarrow> real" where
  "Vector3_dot (Vector3 x y z) (Vector3 x' y' z') = x * x' + y * y' + z * z'"

fun Vector3_length :: "Vector3 \<Rightarrow> real" where
  "Vector3_length (Vector3 x y z) = sqrt (x * x + y * y + z * z)"

fun Vector3_multiplyScalar :: "Vector3 \<Rightarrow> real \<Rightarrow> Vector3" where
  "Vector3_multiplyScalar (Vector3 x y z) k = Vector3 (x * k) (y * k) (z * k)"

definition Vector3_divideScalar :: "Vector3 \<Rightarrow> real \<Rightarrow> Vector3" where
  "Vector3_divideScalar v k = Vector3_multiplyScalar v (1 / k)"

text \<open>\<open>normalize\<close> divides by \<open>length() || 1\<close>: the zero vector stays as it is.\<close>

definition Vector3_normalize :: "Vector3 \<Rightarrow> Vector3" where
  "Vector3_normalize v =
     Vector3_divideScalar v (if Vector3_length v = 0 then 1 else Vector3_length v)"

fun Vector3_negate :: "Vector3 \<Rightarrow> Vector3" where
  "Vector3_negate (Vector3 x y z) = Vector3 (- x) (- y) (- z)"

fun Vector3_addVectors :: "Vector3 \<Rightarrow> Vector3 \<Rightarrow> Vector3" where
  "Vector3_addVectors (Vector3 x y z) (Vector3 x' y' z') = Vector3 (x + x') (y + y') (z + z')"

fun Vector3_subVectors :: "Vector3 \<Rightarrow> Vector3 \<Rightarrow> Vector3" where
  "Vector3_subVectors (Vector3 x y z) (Vector3 x' y' z') = Vector3 (x - x') (y - y') (z - z')"

fun Vector3_min :: "Vector3 \<Rightarrow> Vector3 \<Rightarrow> Vector3" where
  "Vector3_min (Vector3 x y z) (Vector3 x' y' z') = Vector3 (min x x') (min y y') (min z z')"

fun Vector3_max :: "Vector3 \<Rightarrow> Vector3 \<Rightarrow> Vector3" where
  "Vector3_max (Vector3 x y z) (Vector3 x' y' z') = Vector3 (max x x') (max y y') (max z z')"

fun Vector3_distanceTo :: "Vector3 \<Rightarrow> Vector3 \<Rightarrow> real" where
  "Vector3_distanceTo (Vector3 x y z) (Vector3 x' y' z') =
     (let dx = x - x'; dy = y - y'; dz = z - z' in sqrt (dx * dx + dy * dy + dz * dz))"

fun Vector3_lerp :: "Vector3 \<Rightarrow> Vector3 \<Rightarrow> real \<Rightarrow> Vector3" where
  "Vector3_lerp (Vector3 x y z) (Vector3 x' y' z') alpha =
     Vector3 (x + (x' - x) * alpha) (y + (y' - y) * alpha) (z + (z' - z) * alpha)"

text \<open>
  \<open>Vector3.applyQuaternion\<close>: \<open>v + w t + q \<times> t\<close> with \<open>t = 2 (q \<times> v)\<close>, where \<open>q\<close> is
  taken to have unit length. Older releases of the library compute \<open>q v q\<^sup>*\<close> instead;
  for \<open>q\<close> of unit length the two agree (\<open>applyQuaternion_sandwich\<close> below).
\<close>

fun Vector3_applyQuaternion :: "Vector3 \<Rightarrow> Quaternion \<Rightarrow> Vector3" where
  "Vector3_applyQuaternion (Vector3 x y z) (Quaternion a b c w) =
     (let tx = 2 * (b * z - c * y);
          ty = 2 * (c * x - a * z);
          tz = 2 * (a * y - b * x)
      in Vector3 (x + w * tx + b * tz - c * ty)
                 (y + w * ty + c * tx - a * tz)
                 (z + w * tz + a * ty - b * tx))"

definition Vector3_applyMatrix4 :: "Vector3 \<Rightarrow> Matrix4 \<Rightarrow> Vector3" where
  "Vector3_applyMatrix4 v e =
     (let x = vx v; y = vy v; z = vz v;
          w = 1 / (e ! 3 * x + e ! 7 * y + e ! 11 * z + e ! 15)
      in Vector3 ((e ! 0 * x + e ! 4 * y + e ! 8 * z + e ! 12) * w)
                 ((e ! 1 * x + e ! 5 * y + e ! 9 * z + e ! 13) * w)
                 ((e ! 2 * x + e ! 6 * y + e ! 10 * z + e ! 14) * w))"

fun Quaternion_length :: "Quaternion \<Rightarrow> real" where
  "Quaternion_length (Quaternion a b c w) = sqrt (a * a + b * b + c * c + w * w)"

definition Quaternion_normalize :: "Quaternion \<Rightarrow> Quaternion" where
  "Quaternion_normalize q =
     (let l = Quaternion_length q in
      if l = 0 then Quaternion 0 0 0 1
      else Quaternion (qx q * (1 / l)) (qy q * (1 / l)) (qz q * (1 / l)) (qw q * (1 / l)))"

text \<open>\<open>a.multiply(b)\<close> is the Hamilton product \<open>a b\<close>.\<close>

fun Quaternion_multiply :: "Quaternion \<Rightarrow> Quaternion \<Rightarrow> Quaternion" where
  "Quaternion_multiply (Quaternion qax qay qaz qaw) (Quaternion qbx qby qbz qbw) =
     Quaternion (qax * qbw + qaw * qbx + qay * qbz - qaz * qby)
                (qay * qbw + qaw * qby + qaz * qbx - qax * qbz)
                (qaz * qbw + qaw * qbz + qax * qby - qay * qbx)
                (qaw * qbw - qax * qbx - qay * qby - qaz * qbz)"

text \<open>
  \<open>setFromUnitVectors\<close>: the shortest-arc rotation from \<open>vFrom\<close> to \<open>vTo\<close>, both taken
  to be normalised; when they point in (nearly) opposite directions, a half turn about
  an axis orthogonal to \<open>vFrom\<close>. The threshold \<open>eps\<close> of that test is a constant of the
  library, \<open>Number.EPSILON\<close> or \<open>1e-8\<close> depending on the release; it is a parameter here.
\<close>

definition Quaternion_setFromUnitVectors :: "real \<Rightarrow> Vector3 \<Rightarrow> Vector3 \<Rightarrow> Quaternion" where
  "Quaternion_setFromUnitVectors eps vFrom vTo =
     (let r = Vector3_dot vFrom vTo + 1 in
      Quaternion_normalize
        (if r < eps then
           (if \<bar>vx vFrom\<bar> > \<bar>vz vFrom\<bar>
            then Quaternion (- vy vFrom) (vx vFrom) 0 0
            else Quaternion 0 (- vz vFrom) (vy vFrom) 0)
         else
           Quaternion (vy vFrom * vz vTo - vz vFrom * vy vTo)
                      (vz vFrom * vx vTo - vx vFrom * vz vTo)
                      (vx vFrom * vy vTo - vy vFrom * vx vTo)
                      r))"

text \<open>\<open>setFromEuler\<close> for an Euler triple in the default order XYZ.\<close>

definition Quaternion_setFromEuler :: "real \<Rightarrow> real \<Rightarrow> real \<Rightarrow> Quaternion" where
  "Quaternion_setFromEuler x y z =
     (let c1 = cos (x / 2); c2 = cos (y / 2); c3 = cos (z / 2);
          s1 = sin (x / 2); s2 = sin (y / 2); s3 = sin (z / 2)
      in Quaternion (s1 * c2 * c3 + c1 * s2 * s3)
                    (c1 * s2 * c3 - s1 * c2 * s3)
                    (c1 * c2 * s3 + s1 * s2 * c3)
                    (c1 * c2 * c3 - s1 * s2 * s3))"

definition Quaternion_setFromAxisAngle :: "Vector3 \<Rightarrow> real \<Rightarrow> Quaternion" where
  "Quaternion_setFromAxisAngle axis angle =
     (let halfAngle = angle / 2; s = sin halfAngle
      in Quaternion (vx axis * s) (vy axis * s) (vz axis * s) (cos halfAngle))"

definition Matrix4_makeTranslation :: "real \<Rightarrow> real \<Rightarrow> real \<Rightarrow> Matrix4" where
  "Matrix4_makeTranslation x y z =
     [1, 0, 0, 0,  0, 1, 0, 0,  0, 0, 1, 0,  x, y, z, 1]"

definition Matrix4_makeScale :: "real \<Rightarrow> real \<Rightarrow> real \<Rightarrow> Matrix4" where
  "Matrix4_makeScale x y z =
     [x, 0, 0, 0,  0, y, 0, 0,  0, 0, z, 0,  0, 0, 0, 1]"

text \<open>\<open>makeRotationFromQuaternion(q)\<close> is \<open>compose\<close> at position zero and scale one.\<close>

fun Matrix4_makeRotationFromQuaternion :: "Quaternion \<Rightarrow> Matrix4" where
  "Matrix4_makeRotationFromQuaternion (Quaternion x y z w) =
     (let x2 = x + x; y2 = y + y; z2 = z + z;
          xx = x * x2; xy = x * y2; xz = x * z2;
          yy = y * y2; yz = y * z2; zz = z * z2;
          wx = w * x2; wy = w * y2; wz = w * z2
      in [(1 - (yy + zz)) * 1, (xy + wz) * 1, (xz - wy) * 1, 0,
          (xy - wz) * 1, (1 - (xx + zz)) * 1, (yz + wx) * 1, 0,
          (xz + wy) * 1, (yz - wx) * 1, (1 - (xx + yy)) * 1, 0,
          0, 0, 0, 1])"

text \<open>
  A \<open>Box3\<close> holds its two corners. \<open>EmptyBox\<close> is the box of \<open>makeEmpty()\<close>, whose
  corners three.js sets to \<open>+Infinity\<close> and \<open>-Infinity\<close>: expanding it by a point
  gives the box of that point.
\<close>

datatype Box3 = EmptyBox | Box3 Vector3 Vector3

fun Box3_expandByPoint :: "Box3 \<Rightarrow> Vector3 \<Rightarrow> Box3" where
  "Box3_expandByPoint EmptyBox p = Box3 p p"
| "Box3_expandByPoint (Box3 lo hi) p = Box3 (Vector3_min lo p) (Vector3_max hi p)"

definition Box3_setFromBufferAttribute :: "Vector3 list \<Rightarrow> Box3" where
  "Box3_setFromBufferAttribute ps = foldl Box3_expandByPoint EmptyBox ps"

fun Box3_isEmpty :: "Box3 \<Rightarrow> bool" where
  "Box3_isEmpty EmptyBox = True"
| "Box3_isEmpty (Box3 lo hi) = (vx hi < vx lo \<or> vy hi < vy lo \<or> vz hi < vz lo)"

fun Box3_getCenter :: "Box3 \<Rightarrow> Vector3" where
  "Box3_getCenter EmptyBox = Vector3 0 0 0"
| "Box3_getCenter (Box3 lo hi) =
     (if Box3_isEmpty (Box3 lo hi) then Vector3 0 0 0
      else Vector3_multiplyScalar (Vector3_addVectors lo hi) 0.5)"

fun Box3_getSize :: "Box3 \<Rightarrow> Vector3" where
  "Box3_getSize EmptyBox = Vector3 0 0 0"
| "Box3_getSize (Box3 lo hi) =
     (if Box3_isEmpty (Box3 lo hi) then Vector3 0 0 0 else Vector3_subVectors hi lo)"

text \<open>A JavaScript number that may be \<open>-Infinity\<close>: the negated \<open>min.y\<close> of a box.\<close>

datatype Offset = Finite real | NegativeInfinity

fun Box3_negMinY :: "Box3 \<Rightarrow> Offset" where
  "Box3_negMinY EmptyBox = NegativeInfinity"
| "Box3_negMinY (Box3 lo hi) = Finite (- vy lo)"

text \<open>
  A \<open>BufferGeometry\<close>: the vertices of its position attribute (32-bit floats in the
  library, reals here) and its cached bounding box (null until computed).
  \<open>applyMatrix4\<close> transforms every vertex and recomputes the box when there is one.
\<close>

record BufferGeometry =
  position :: "Vector3 list"
  boundingBox :: "Box3 option"

definition BufferGeometry_computeBoundingBox :: "BufferGeometry \<Rightarrow> BufferGeometry" where
  "BufferGeometry_computeBoundingBox g =
     g\<lparr> boundingBox := Some (Box3_setFromBufferAttribute (position g)) \<rparr>"

definition BufferGeometry_applyMatrix4 :: "BufferGeometry \<Rightarrow> Matrix4 \<Rightarrow> BufferGeometry" where
  "BufferGeometry_applyMatrix4 g m =
     (let g' = g\<lparr> position := map (\<lambda>v. Vector3_applyMatrix4 v m) (position g) \<rparr>
      in case boundingBox g' of
           None \<Rightarrow> g'
         | Some b \<Rightarrow> BufferGeometry_computeBoundingBox g')"

definition BufferGeometry_translate :: "BufferGeometry \<Rightarrow> real \<Rightarrow> real \<Rightarrow> real \<Rightarrow> BufferGeometry" where
  "BufferGeometry_translate g x y z = BufferGeometry_applyMatrix4 g (Matrix4_makeTranslation x y z)"

definition BufferGeometry_scale :: "BufferGeometry \<Rightarrow> real \<Rightarrow> real \<Rightarrow> real \<Rightarrow> BufferGeometry" where
  "BufferGeometry_scale g x y z = BufferGeometry_applyMatrix4 g (Matrix4_makeScale x y z)"

definition BufferGeometry_applyQuaternion :: "BufferGeometry \<Rightarrow> Quaternion \<Rightarrow> BufferGeometry" where
  "BufferGeometry_applyQuaternion g q =
     BufferGeometry_applyMatrix4 g (Matrix4_makeRotationFromQuaternion q)"

definition BufferGeometry_center :: "BufferGeometry \<Rightarrow> BufferGeometry" where
  "BufferGeometry_center g =
     (let g1 = BufferGeometry_computeBoundingBox g in
      case boundingBox g1 of
        None \<Rightarrow> g1
      | Some box \<Rightarrow>
          (let off = Vector3_negate (Box3_getCenter box)
           in BufferGeometry_translate g1 (vx off) (vy off) (vz off)))"

definition BufferGeometry_clone :: "BufferGeometry \<Rightarrow> BufferGeometry" where
  "BufferGeometry_clone g = g"

section \<open>The dimension computation (STLModel in components/Viewer3D.tsx)\<close>

text \<open>
  The layout effect of \<open>STLModel\<close>. Its state is the geometry of the mesh behind
  \<open>meshRef\<close> (\<open>None\<close> while the ref is null) and the vertical offset of the group; the
  result carries the dimensions handed to \<open>onDimensionsCalculated\<close>, if it was called.
\<close>

record STLModel_state =
  meshRef :: "BufferGeometry option"
  verticalOffset :: Offset

definition STLModel_layoutEffect ::
  "Quaternion \<Rightarrow> real \<Rightarrow> STLModel_state \<Rightarrow> STLModel_state \<times> ModelDimensions option" where
  "STLModel_layoutEffect meshRotation scaleFactor st =
     (case meshRef st of
        None \<Rightarrow> (st, None)
      | Some g \<Rightarrow>
          (let centered = BufferGeometry_center g;
               tempGeo = BufferGeometry_clone centered;
               rotated = BufferGeometry_applyQuaternion tempGeo meshRotation;
               scaled = BufferGeometry_scale rotated scaleFactor scaleFactor scaleFactor;
               boxed = BufferGeometry_computeBoundingBox scaled
           in case boundingBox boxed of
                None \<Rightarrow> (st\<lparr> meshRef := Some centered \<rparr>, None)
              | Some box \<Rightarrow>
                  (let size = Box3_getSize box;
                       vol = vx size * vy size * vz size
                   in (st\<lparr> meshRef := Some centered, verticalOffset := Box3_negMinY box \<rparr>,
                       Some \<lparr> width = vx size, height = vy size, depth = vz size,
                              volume = vol \<rparr>))))"

section \<open>The application state (App.tsx) and the viewer (components/Viewer3D.tsx)\<close>

text \<open>
  React compares the dependencies of an effect with \<open>Object.is\<close>: strings, numbers and
  modes by value, a quaternion by the identity of the object. A quaternion held in the
  state is therefore a value together with the identity of its object; \<open>allocated\<close>
  counts the quaternion objects created so far, and every \<open>new THREE.Quaternion()\<close>
  takes the next identity.
\<close>

record QuaternionObject =
  ident :: nat
  quat :: Quaternion

datatype URL_call = CreateObjectURL string string | RevokeObjectURL string

text \<open>
  The state of \<open>App\<close>, the point list of \<open>Viewer3D\<close>, and the calls made to
  \<open>URL.createObjectURL\<close> (with the file's name and the URL it returned) and
  \<open>URL.revokeObjectURL\<close>, in order.
\<close>

record App_state =
  fileUrl :: "string option"
  dimensions :: "ModelDimensions option"
  viewerMode :: ViewerMode
  scale :: real
  meshRotation :: QuaternionObject
  measurePoints :: "Vector3 list"
  urlCalls :: "URL_call list"
  allocated :: nat

text \<open>The Z-up correction: \<open>setFromEuler(new Euler(-Math.PI / 2, 0, 0))\<close>.\<close>

definition defaultRotation :: Quaternion where
  "defaultRotation = Quaternion_setFromEuler (- pi / 2) 0 0"

definition initialApp :: App_state where
  "initialApp =
     \<lparr> fileUrl = None, dimensions = None, viewerMode = VIEW, scale = 1,
       meshRotation = \<lparr> ident = 0, quat = defaultRotation \<rparr>,
       measurePoints = [], urlCalls = [], allocated = 1 \<rparr>"

text \<open>\<open>setMeshRotation\<close> with a freshly created quaternion.\<close>

definition setMeshRotation :: "Quaternion \<Rightarrow> App_state \<Rightarrow> App_state" where
  "setMeshRotation q st =
     st\<lparr> meshRotation := \<lparr> ident = allocated st, quat = q \<rparr>,
         allocated := Suc (allocated st) \<rparr>"

text \<open>
  \<open>handleFileUpload(file)\<close>; \<open>url\<close> is what \<open>URL.createObjectURL(file)\<close> returns.
\<close>

definition handleFileUpload :: "string \<Rightarrow> string \<Rightarrow> App_state \<Rightarrow> App_state" where
  "handleFileUpload file url st =
     (let revoked = (case fileUrl st of
                       None \<Rightarrow> urlCalls st
                     | Some old \<Rightarrow>
                         if old = [] then urlCalls st
                         else urlCalls st @ [RevokeObjectURL old]);
          created = revoked @ [CreateObjectURL file url]
      in setMeshRotation (Quaternion_setFromEuler (- pi / 2) 0 0)
           (st\<lparr> fileUrl := Some url, dimensions := None, viewerMode := VIEW,
                scale := 1, urlCalls := created \<rparr>))"

definition handleDimensionsCalculated :: "ModelDimensions \<Rightarrow> App_state \<Rightarrow> App_state" where
  "handleDimensionsCalculated dims st = st\<lparr> dimensions := Some dims \<rparr>"

definition handleRotate90 :: "App_state \<Rightarrow> App_state" where
  "handleRotate90 st =
     (let rotator = Quaternion_setFromAxisAngle (Vector3 1 0 0) (- pi / 2)
      in setMeshRotation (Quaternion_multiply rotator (quat (meshRotation st))) st)"

text \<open>The two mode buttons of the sidebar and the scale input.\<close>

definition onClickDropFace :: "App_state \<Rightarrow> App_state" where
  "onClickDropFace st =
     st\<lparr> viewerMode := (if viewerMode st = ALIGN then VIEW else ALIGN) \<rparr>"

definition onClickRulerTool :: "App_state \<Rightarrow> App_state" where
  "onClickRulerTool st =
     st\<lparr> viewerMode := (if viewerMode st = MEASURE then VIEW else MEASURE) \<rparr>"

text \<open>\<open>parsed\<close> is \<open>parseFloat(e.target.value)\<close>, \<open>None\<close> when it is NaN.\<close>

definition onChangeScale :: "real option \<Rightarrow> App_state \<Rightarrow> App_state" where
  "onChangeScale parsed st =
     (case parsed of
        None \<Rightarrow> st
      | Some v \<Rightarrow> if v > 0 then st\<lparr> scale := v / 100 \<rparr> else st)"

text \<open>A click on the mesh: the point hit and the normal of the face hit, if any.\<close>

record Intersection =
  point :: Vector3
  faceNormal :: "Vector3 option"

definition alignRotation :: "real \<Rightarrow> Quaternion \<Rightarrow> Vector3 \<Rightarrow> Quaternion" where
  "alignRotation eps rotation localNormal =
     (let worldNormal = Vector3_normalize (Vector3_applyQuaternion localNormal rotation);
          targetDir = Vector3 0 (- 1) 0;
          alignQuat = Quaternion_setFromUnitVectors eps worldNormal targetDir
      in Quaternion_multiply alignQuat rotation)"

definition handleMeshClick :: "real \<Rightarrow> Intersection \<Rightarrow> App_state \<Rightarrow> App_state" where
  "handleMeshClick eps e st =
     (if viewerMode st = MEASURE then
        st\<lparr> measurePoints :=
              (if length (measurePoints st) \<ge> 2 then [point e]
               else measurePoints st @ [point e]) \<rparr>
      else if viewerMode st = ALIGN then
        (case faceNormal e of
           None \<Rightarrow> st
         | Some localNormal \<Rightarrow>
             setMeshRotation (alignRotation eps (quat (meshRotation st)) localNormal) st)
      else st)"

text \<open>
  The effect of \<open>Viewer3D\<close> with dependencies \<open>[fileUrl, viewerMode, meshRotation,
  scale]\<close>: after a render it runs when one of them differs from the render before.
\<close>

definition effectDeps :: "App_state \<Rightarrow> string option \<times> ViewerMode \<times> nat \<times> real" where
  "effectDeps st = (fileUrl st, viewerMode st, ident (meshRotation st), scale st)"

definition resetEffect :: "App_state \<Rightarrow> App_state \<Rightarrow> App_state" where
  "resetEffect before after =
     (if effectDeps after = effectDeps before then after
      else after\<lparr> measurePoints := [] \<rparr>)"

datatype Event =
    FileUpload string string
  | DimensionsCalculated ModelDimensions
  | RotateModel
  | DropFaceButton
  | RulerToolButton
  | ScaleInput "real option"
  | MeshClick Intersection

fun handler :: "real \<Rightarrow> Event \<Rightarrow> App_state \<Rightarrow> App_state" where
  "handler eps (FileUpload file url) st = handleFileUpload file url st"
| "handler eps (DimensionsCalculated dims) st = handleDimensionsCalculated dims st"
| "handler eps RotateModel st = handleRotate90 st"
| "handler eps DropFaceButton st = onClickDropFace st"
| "handler eps RulerToolButton st = onClickRulerTool st"
| "handler eps (ScaleInput parsed) st = onChangeScale parsed st"
| "handler eps (MeshClick e) st = handleMeshClick eps e st"

text \<open>
  One event: the handler's updates, the render, then the effect. The parameter \<open>eps\<close>
  is the threshold of \<open>setFromUnitVectors\<close>. Every event is taken to be possible in
  every state, although the interface offers the buttons only once dimensions are known
  and the mesh only once a file is loaded: the states the interface can reach are among
  the reachable states below.
\<close>

definition step :: "real \<Rightarrow> App_state \<Rightarrow> Event \<Rightarrow> App_state" where
  "step eps st ev = resetEffect st (handler eps ev st)"

definition run :: "real \<Rightarrow> App_state \<Rightarrow> Event list \<Rightarrow> App_state" where
  "run eps st evs = foldl (step eps) st evs"

inductive reachable :: "real \<Rightarrow> App_state \<Rightarrow> bool" for eps :: real where
  reachable_initial: "reachable eps initialApp"
| reachable_step: "reachable eps st \<Longrightarrow> reachable eps (step eps st ev)"

text \<open>
  What \<open>MeasurementTool\<close> renders: nothing for no points; otherwise a sphere per point
  with its colour and, for two points, the line and the label at their midpoint.
  \<open>toFixed\<close> is \<open>Number.prototype.toFixed\<close> at two digits.
\<close>

record MeasurementOverlay =
  spheres :: "(Vector3 \<times> string) list"
  segment :: "Vector3 list option"
  distanceLabel :: "(Vector3 \<times> string) option"

definition MeasurementTool :: "(real \<Rightarrow> string) \<Rightarrow> Vector3 list \<Rightarrow> MeasurementOverlay option" where
  "MeasurementTool toFixed points =
     (if length points = 0 then None
      else Some
        \<lparr> spheres = map (\<lambda>(i, p). (p, if i = 0 then ''#10b981'' else ''#ef4444''))
                        (enumerate 0 points),
          segment = (if length points = 2 then Some points else None),
          distanceLabel =
            (if length points = 2
             then Some (Vector3_lerp (points ! 0) (points ! 1) 0.5,
                        toFixed (Vector3_distanceTo (points ! 0) (points ! 1)) @ '' mm'')
             else None) \<rparr>)"

section \<open>Notions used to state the properties\<close>

text \<open>
  The extremes of a coordinate over a vertex list, the centre of the bounding box, the
  list re-centred on it, and the list rotated and then scaled.
\<close>

definition lowest :: "(Vector3 \<Rightarrow> real) \<Rightarrow> Vector3 list \<Rightarrow> real" where
  "lowest f ps = Min (f ` set ps)"

definition highest :: "(Vector3 \<Rightarrow> real) \<Rightarrow> Vector3 list \<Rightarrow> real" where
  "highest f ps = Max (f ` set ps)"

definition boxCenter :: "Vector3 list \<Rightarrow> Vector3" where
  "boxCenter ps =
     Vector3 ((lowest vx ps + highest vx ps) / 2) ((lowest vy ps + highest vy ps) / 2)
             ((lowest vz ps + highest vz ps) / 2)"

definition recentered :: "Vector3 list \<Rightarrow> Vector3 list" where
  "recentered ps = map (\<lambda>v. Vector3_subVectors v (boxCenter ps)) ps"

definition rotatedScaled :: "Quaternion \<Rightarrow> real \<Rightarrow> Vector3 list \<Rightarrow> Vector3 list" where
  "rotatedScaled q s ps = map (\<lambda>v. Vector3_multiplyScalar (Vector3_applyQuaternion v q) s) ps"

text \<open>A mesh of three vertices, used at concrete points below.\<close>

definition sampleGeometry :: BufferGeometry where
  "sampleGeometry = \<lparr> position = [Vector3 0 0 0, Vector3 2 4 6, Vector3 1 4 0], boundingBox = None \<rparr>"

definition sampleModel :: STLModel_state where
  "sampleModel = \<lparr> meshRef = Some sampleGeometry, verticalOffset = Finite 0 \<rparr>"

text \<open>
  The squared norms, and the rotation \<open>q v q\<^sup>*\<close> written out in coordinates.
\<close>

fun norm2 :: "Quaternion \<Rightarrow> real" where
  "norm2 (Quaternion a b c w) = a * a + b * b + c * c + w * w"

fun sandwich :: "Quaternion \<Rightarrow> Vector3 \<Rightarrow> Vector3" where
  "sandwich (Quaternion a b c w) (Vector3 x y z) =
     Vector3 ((w * w + a * a - b * b - c * c) * x + 2 * (a * b - w * c) * y + 2 * (a * c + w * b) * z)
             (2 * (a * b + w * c) * x + (w * w - a * a + b * b - c * c) * y + 2 * (b * c - w * a) * z)
             (2 * (a * c - w * b) * x + 2 * (b * c + w * a) * y + (w * w - a * a - b * b + c * c) * z)"

fun vnorm2 :: "Vector3 \<Rightarrow> real" where
  "vnorm2 (Vector3 x y z) = x * x + y * y + z * z"

text \<open>States used at concrete points below.\<close>

definition loadedApp :: App_state where
  "loadedApp =
     run Number_EPSILON initialApp [FileUpload ''cube.stl'' ''blob:1'', RotateModel, RulerToolButton]"

definition threeClicks :: "Intersection list" where
  "threeClicks =
     [\<lparr> point = Vector3 0 0 0, faceNormal = None \<rparr>,
      \<lparr> point = Vector3 3 4 0, faceNormal = None \<rparr>,
      \<lparr> point = Vector3 1 1 1, faceNormal = None \<rparr>]"

text \<open>A stand-in for \<open>toFixed(2)\<close> at the distance used below.\<close>

definition sampleToFixed :: "real \<Rightarrow> string" where
  "sampleToFixed r = (if r = 5 then ''5.00'' else ''0.00'')"

text \<open>The rotation held in the state has unit length.\<close>

definition unitRotation :: "App_state \<Rightarrow> bool" where
  "unitRotation st = (norm2 (quat (meshRotation st)) = 1)"

text \<open>A state in face-alignment mode and a click on a face whose normal is the X axis.\<close>

definition alignState :: App_state where
  "alignState = run Number_EPSILON initialApp [FileUpload ''cube.stl'' ''blob:1'', DropFaceButton]"

definition sideClick :: Intersection where
  "sideClick = \<lparr> point = Vector3 1 0 0, faceNormal = Some (Vector3 1 0 0) \<rparr>"

text \<open>
  The object identities are fresh: the quaternion held in the state was allocated
  before the counter's present value.
\<close>

definition fresh :: "App_state \<Rightarrow> bool" where
  "fresh st = (ident (meshRotation st) < allocated st)"

section \<open>Properties of the chat handler\<close>

lemma trim_empty_iff_blank: "trim s = [] \<longleftrightarrow> blank s"
proof -
  have "dropWhile isWhiteSpace (rev (dropWhile isWhiteSpace s)) = []
          \<longleftrightarrow> dropWhile isWhiteSpace s = []"
  proof
    assume a: "dropWhile isWhiteSpace (rev (dropWhile isWhiteSpace s)) = []"
    show "dropWhile isWhiteSpace s = []"
    proof (cases "dropWhile isWhiteSpace s")
      case Nil
      then show ?thesis .
    next
      case (Cons c cs)
      then have "\<not> isWhiteSpace c"
        using hd_dropWhile [of isWhiteSpace s] by simp
      moreover from a have "\<forall>x\<in>set (rev (dropWhile isWhiteSpace s)). isWhiteSpace x"
        by simp
      ultimately show ?thesis using Cons by simp
    qed
  next
    assume "dropWhile isWhiteSpace s = []"
    then show "dropWhile isWhiteSpace (rev (dropWhile isWhiteSpace s)) = []"
      by (simp only: rev.simps dropWhile.simps)
  qed
  then show ?thesis
    by (simp add: trim_def blank_def list_all_iff)
qed

lemma cleanBase64_pngShot: "cleanBase64 pngShot = ''iVBORw0KGgo=''"
  by (simp add: cleanBase64_def pngShot_def orElse_def)

lemma pngShot_truthy: "pngShot \<noteq> []"
  by (simp add: pngShot_def)

lemma typedHello_trim: "trim (prompt typedHello) = ''hello''"
  by (simp add: typedHello_def trim_def isWhiteSpace_def)

lemma typedHello_not_blank: "\<not> blank (prompt typedHello)"
  using typedHello_trim trim_empty_iff_blank [of "prompt typedHello"] by simp

text \<open>
  C7, as stated, fails: with no screenshot, a blank prompt and a transcript that
  already holds an entry, the handler returns at its first guard and appends nothing.
\<close>

theorem no_model_silent_return:
  "fst (handleSendMessage quotaProvider None askedOnce) = askedOnce
   \<and> messages (fst (handleSendMessage quotaProvider None askedOnce))
       \<noteq> messages askedOnce @ [loadFirstMessage]"
  by (simp add: handleSendMessage_def askedOnce_def trim_def)

text \<open>
  C7 (amended): a send attempt with no screenshot available (null or the empty string)
  never issues a request. When the prompt is not blank or the transcript is empty it
  appends exactly one entry, from the assistant, flagged as an error and asking the
  user to load a 3D model first; when the prompt is blank and the transcript is not
  empty it leaves the state as it is.
\<close>

theorem no_model_guidance:
  assumes "shot = None \<or> shot = Some []"
  shows "snd (handleSendMessage generateContent shot st) = []
       \<and> fst (handleSendMessage generateContent shot st) =
           (if blank (prompt st) \<and> messages st \<noteq> [] then st
            else st\<lparr> messages := messages st @
                   [\<lparr> role = Ai, content = ''Please load a 3D model first to analyze it.'',
                      isError = Some True \<rparr>] \<rparr>)"
  using assms
  by (auto simp: handleSendMessage_def trim_empty_iff_blank pushMessage_def loadFirstMessage_def)

theorem no_model_guidance_witness:
  "snd (handleSendMessage quotaProvider None typedHello) = []
   \<and> messages (fst (handleSendMessage quotaProvider None typedHello)) = [loadFirstMessage]"
  using no_model_guidance [of None quotaProvider typedHello] typedHello_not_blank
  by (simp add: loadFirstMessage_def) (simp add: typedHello_def)

text \<open>
  C8, as stated, fails: the provider rejects with the message \<open>quota exceeded\<close>, and
  the entry appended to the transcript reads \<open>Failed to analyze the model.\<close>
\<close>

theorem provider_message_not_shown:
  "quotaProvider (makeRequest pngShot ''hello'') = Rejected (Some ''quota exceeded'')
   \<and> map content (messages (fst (handleSendMessage quotaProvider (Some pngShot) typedHello)))
       = [''hello'', ''Failed to analyze the model.'']"
  by (simp add: handleSendMessage_def typedHello_trim pngShot_truthy orElse_def
      analyzeModelImage_def quotaProvider_def pushMessage_def userMessage_def failedMessage_def
      Let_def)
     (simp add: typedHello_def)

text \<open>
  C8 (amended): when the request is sent and the provider rejects it, the handler
  finishes normally; exactly one request went out; after the user's entry the
  transcript gains exactly one entry, from the assistant, flagged as an error, whose
  text is always \<open>Failed to analyze the model.\<close>; the analysing flag is cleared. The
  provider's message, or the fallback \<open>Failed to analyze image.\<close>, is the message of
  the error that \<open>analyzeModelImage\<close> throws, which the handler does not display.
\<close>

theorem failed_request_entry:
  assumes shot: "screenshot \<noteq> []"
    and go: "\<not> (blank (prompt st) \<and> messages st \<noteq> [])"
    and fail: "generateContent
                 (makeRequest screenshot (orElse (Some (trim (prompt st))) defaultPrompt))
                 = Rejected msg"
  shows "handleSendMessage generateContent (Some screenshot) st =
           (\<lparr> messages = messages st
                 @ [if blank (prompt st) then userMessage ''Analyze this model.''
                    else userMessage (trim (prompt st))]
                 @ [\<lparr> role = Ai, content = ''Failed to analyze the model.'',
                      isError = Some True \<rparr>],
              isAnalyzing = False, prompt = [] \<rparr>,
            [makeRequest screenshot (orElse (Some (trim (prompt st))) defaultPrompt)])
         \<and> fst (analyzeModelImage generateContent screenshot
                  (orElse (Some (trim (prompt st))) defaultPrompt))
             = Inl (Error (orElse msg ''Failed to analyze image.''))"
proof (cases "blank (prompt st)")
  case True
  with go have m: "messages st = []" by simp
  from True have t: "trim (prompt st) = []" by (simp add: trim_empty_iff_blank)
  show ?thesis
    using shot fail
    by (simp add: handleSendMessage_def analyzeModelImage_def t m True pushMessage_def
        failedMessage_def Let_def)
next
  case False
  then have t: "trim (prompt st) \<noteq> []" by (simp add: trim_empty_iff_blank)
  then have o: "orElse (Some (trim (prompt st))) defaultPrompt = trim (prompt st)"
    by (simp add: orElse_def)
  show ?thesis
    using shot fail
    by (simp add: handleSendMessage_def analyzeModelImage_def t o False pushMessage_def
        failedMessage_def Let_def)
qed

theorem failed_request_entry_witness:
  "map content (messages (fst (handleSendMessage quotaProvider (Some pngShot) typedHello)))
     = [''hello'', ''Failed to analyze the model.'']
   \<and> snd (handleSendMessage quotaProvider (Some pngShot) typedHello)
       = [makeRequest pngShot ''hello'']"
proof -
  have o: "orElse (Some (trim (prompt typedHello))) defaultPrompt = ''hello''"
    by (simp add: typedHello_trim orElse_def)
  have f: "quotaProvider
             (makeRequest pngShot (orElse (Some (trim (prompt typedHello))) defaultPrompt))
             = Rejected (Some ''quota exceeded'')"
    by (simp add: quotaProvider_def)
  have g: "\<not> (blank (prompt typedHello) \<and> messages typedHello \<noteq> [])"
    using typedHello_not_blank by simp
  show ?thesis
    using failed_request_entry [where screenshot = pngShot and st = typedHello
        and generateContent = quotaProvider and msg = "Some ''quota exceeded''"]
      pngShot_truthy g f typedHello_not_blank
    by (simp add: o typedHello_trim userMessage_def) (simp add: typedHello_def orElse_def)
qed

text \<open>
  C10: a send attempt with a blank prompt while a screenshot is available. With a
  non-empty transcript the handler returns the state unchanged and sends nothing. With
  an empty transcript it sends exactly one request, whose prompt is the default
  question, and the transcript then holds two entries, the first being the user entry
  \<open>Analyze this model.\<close>
\<close>

theorem blank_prompt_send:
  assumes b: "blank (prompt st)" and shot: "screenshot \<noteq> []"
  shows "(messages st \<noteq> [] \<longrightarrow>
            handleSendMessage generateContent (Some screenshot) st = (st, []))
       \<and> (messages st = [] \<longrightarrow>
            snd (handleSendMessage generateContent (Some screenshot) st)
              = [makeRequest screenshot
                   ''What is this object and what are the 3D printing considerations?'']
          \<and> promptPart (makeRequest screenshot
                   ''What is this object and what are the 3D printing considerations?'')
              = ''What is this object and what are the 3D printing considerations?''
          \<and> length (messages (fst (handleSendMessage generateContent (Some screenshot) st))) = 2
          \<and> hd (messages (fst (handleSendMessage generateContent (Some screenshot) st)))
              = \<lparr> role = User, content = ''Analyze this model.'', isError = None \<rparr>)"
proof -
  from b have t: "trim (prompt st) = []" by (simp add: trim_empty_iff_blank)
  show ?thesis
    using shot
    by (simp add: handleSendMessage_def analyzeModelImage_def t pushMessage_def orElse_def
        defaultPrompt_def userMessage_def makeRequest_def Let_def
        split: GenerateContentOutcome.split)
qed

theorem blank_prompt_send_witness:
  "handleSendMessage echoProvider (Some pngShot) askedOnce = (askedOnce, [])
   \<and> length (messages (fst (handleSendMessage echoProvider (Some pngShot) initialSidebar))) = 2
   \<and> content (hd (messages (fst (handleSendMessage echoProvider (Some pngShot) initialSidebar))))
       = ''Analyze this model.''"
proof -
  have b1: "blank (prompt askedOnce)" by (simp add: askedOnce_def blank_def)
  have b2: "blank (prompt initialSidebar)" by (simp add: initialSidebar_def blank_def)
  have m1: "messages askedOnce \<noteq> []" by (simp add: askedOnce_def)
  have m2: "messages initialSidebar = []" by (simp add: initialSidebar_def)
  show ?thesis
    using blank_prompt_send [OF b1 pngShot_truthy, of echoProvider]
      blank_prompt_send [OF b2 pngShot_truthy, of echoProvider] m1 m2
    by simp
qed

section \<open>Properties of the application state\<close>

lemma resetEffect_fields [simp]:
  "fileUrl (resetEffect a b) = fileUrl b"
  "dimensions (resetEffect a b) = dimensions b"
  "viewerMode (resetEffect a b) = viewerMode b"
  "scale (resetEffect a b) = scale b"
  "meshRotation (resetEffect a b) = meshRotation b"
  "urlCalls (resetEffect a b) = urlCalls b"
  "allocated (resetEffect a b) = allocated b"
  by (simp_all add: resetEffect_def)

text \<open>
  C9: the Drop Face button sets the mode to plain viewing when the mode is
  face-alignment and to face-alignment otherwise; the Ruler Tool button does the same
  for measurement; pressing either button twice in succession from plain viewing ends
  in plain viewing.
\<close>

theorem mode_button_toggles:
  "viewerMode (step eps st DropFaceButton) = (if viewerMode st = ALIGN then VIEW else ALIGN)
   \<and> viewerMode (step eps st RulerToolButton) = (if viewerMode st = MEASURE then VIEW else MEASURE)
   \<and> (viewerMode st = VIEW \<longrightarrow>
        viewerMode (run eps st [DropFaceButton, DropFaceButton]) = VIEW
      \<and> viewerMode (run eps st [RulerToolButton, RulerToolButton]) = VIEW)"
  by (simp add: run_def step_def onClickDropFace_def onClickRulerTool_def)

theorem mode_button_toggles_witness:
  "viewerMode (step Number_EPSILON initialApp DropFaceButton) = ALIGN
   \<and> viewerMode (run Number_EPSILON initialApp [DropFaceButton, DropFaceButton]) = VIEW
   \<and> viewerMode (step Number_EPSILON initialApp RulerToolButton) = MEASURE
   \<and> viewerMode (run Number_EPSILON initialApp [RulerToolButton, RulerToolButton]) = VIEW"
  using mode_button_toggles [of Number_EPSILON initialApp] by (simp add: initialApp_def)

lemma cos_quarter: "cos (- pi / 4) = sqrt 2 / 2"
proof -
  have "cos (- pi / 4) = cos (pi / 4)" by (metis cos_minus minus_divide_left)
  then show ?thesis by (simp only: cos_45)
qed

lemma sin_quarter: "sin (- pi / 4) = - (sqrt 2 / 2)"
proof -
  have "sin (- pi / 4) = - sin (pi / 4)" by (metis sin_minus minus_divide_left)
  then show ?thesis by (simp only: sin_45)
qed

lemma half_of_half: "- pi / 2 / 2 = - pi / (4::real)"
  by simp

lemma defaultRotation_value: "defaultRotation = Quaternion (- (sqrt 2 / 2)) 0 0 (sqrt 2 / 2)"
  by (simp only: defaultRotation_def Quaternion_setFromEuler_def Let_def half_of_half
      cos_quarter sin_quarter)
     simp

lemma defaultRotation_z_up:
  "Vector3_applyQuaternion (Vector3 0 0 1) defaultRotation = Vector3 0 1 0"
  by (simp add: defaultRotation_value)

lemma fresh_handler: "fresh st \<Longrightarrow> fresh (handler eps ev st)"
  by (cases ev)
     (auto simp: fresh_def handleFileUpload_def setMeshRotation_def handleDimensionsCalculated_def
        handleRotate90_def onClickDropFace_def onClickRulerTool_def onChangeScale_def
        handleMeshClick_def Let_def split: option.splits)

lemma fresh_step: "fresh st \<Longrightarrow> fresh (step eps st ev)"
  using fresh_handler [of st eps ev] by (simp add: step_def fresh_def)

lemma reachable_fresh: "reachable eps st \<Longrightarrow> fresh st"
  by (induction rule: reachable.induct) (simp_all add: fresh_step, simp add: fresh_def initialApp_def)

lemma handler_rotation:
  "fresh st \<Longrightarrow> meshRotation (handler eps ev st) \<noteq> meshRotation st
     \<Longrightarrow> ident (meshRotation (handler eps ev st)) \<noteq> ident (meshRotation st)"
  by (cases ev)
     (auto simp: fresh_def handleFileUpload_def setMeshRotation_def handleDimensionsCalculated_def
        handleRotate90_def onClickDropFace_def onClickRulerTool_def onChangeScale_def
        handleMeshClick_def Let_def split: option.splits if_splits)

lemma points_handler:
  "length (measurePoints st) \<le> 2 \<Longrightarrow> length (measurePoints (handler eps ev st)) \<le> 2"
  by (cases ev)
     (auto simp: handleFileUpload_def setMeshRotation_def handleDimensionsCalculated_def
        handleRotate90_def onClickDropFace_def onClickRulerTool_def onChangeScale_def
        handleMeshClick_def Let_def split: option.splits if_splits)

lemma points_step:
  "length (measurePoints st) \<le> 2 \<Longrightarrow> length (measurePoints (step eps st ev)) \<le> 2"
  using points_handler [of st eps ev] by (simp add: step_def resetEffect_def)

lemma reachable_points: "reachable eps st \<Longrightarrow> length (measurePoints st) \<le> 2"
  by (induction rule: reachable.induct) (simp_all add: points_step, simp add: initialApp_def)

lemma reachable_run: "reachable eps st \<Longrightarrow> reachable eps (run eps st evs)"
  by (induction evs rule: rev_induct) (simp_all add: run_def reachable_step)

lemma reachable_loadedApp: "reachable Number_EPSILON loadedApp"
  unfolding loadedApp_def by (rule reachable_run) (rule reachable_initial)

text \<open>
  C6: when a file is loaded (the URL in the state is a non-empty string), uploading a
  new file sets the rotation to the default correction, which is the rotation by
  \<open>-\<pi>/2\<close> about the X axis, the scale to 1, the dimensions to null and the mode to
  plain viewing, and it revokes the previous URL before it creates the new one; in a
  reachable state it also leaves the point list empty.
\<close>

theorem upload_resets:
  assumes "fileUrl st = Some old" and "old \<noteq> []"
  shows "quat (meshRotation (step eps st (FileUpload file url))) = defaultRotation
       \<and> defaultRotation = Quaternion_setFromAxisAngle (Vector3 1 0 0) (- pi / 2)
       \<and> scale (step eps st (FileUpload file url)) = 1
       \<and> dimensions (step eps st (FileUpload file url)) = None
       \<and> viewerMode (step eps st (FileUpload file url)) = VIEW
       \<and> fileUrl (step eps st (FileUpload file url)) = Some url
       \<and> urlCalls (step eps st (FileUpload file url))
           = urlCalls st @ [RevokeObjectURL old, CreateObjectURL file url]
       \<and> (reachable eps st \<longrightarrow> measurePoints (step eps st (FileUpload file url)) = [])"
proof -
  have "reachable eps st \<longrightarrow> measurePoints (step eps st (FileUpload file url)) = []"
  proof
    assume "reachable eps st"
    then have "fresh st" by (rule reachable_fresh)
    then show "measurePoints (step eps st (FileUpload file url)) = []"
      by (simp add: step_def resetEffect_def effectDeps_def handleFileUpload_def
          setMeshRotation_def fresh_def Let_def)
  qed
  then show ?thesis
    using assms
    by (simp add: step_def handleFileUpload_def setMeshRotation_def defaultRotation_def
        Quaternion_setFromEuler_def Quaternion_setFromAxisAngle_def Let_def)
qed

theorem upload_resets_witness:
  "scale (step Number_EPSILON loadedApp (FileUpload ''gear.stl'' ''blob:2'')) = 1
   \<and> viewerMode (step Number_EPSILON loadedApp (FileUpload ''gear.stl'' ''blob:2'')) = VIEW
   \<and> quat (meshRotation (step Number_EPSILON loadedApp (FileUpload ''gear.stl'' ''blob:2''))) = defaultRotation
   \<and> urlCalls (step Number_EPSILON loadedApp (FileUpload ''gear.stl'' ''blob:2''))
       = [CreateObjectURL ''cube.stl'' ''blob:1'', RevokeObjectURL ''blob:1'',
          CreateObjectURL ''gear.stl'' ''blob:2'']
   \<and> measurePoints (step Number_EPSILON loadedApp (FileUpload ''gear.stl'' ''blob:2'')) = []"
proof -
  have u: "fileUrl loadedApp = Some ''blob:1''"
    by (simp add: loadedApp_def run_def step_def handleFileUpload_def setMeshRotation_def
        handleRotate90_def onClickRulerTool_def Let_def)
  have c: "urlCalls loadedApp = [CreateObjectURL ''cube.stl'' ''blob:1'']"
    by (simp add: loadedApp_def run_def step_def handleFileUpload_def setMeshRotation_def
        handleRotate90_def onClickRulerTool_def initialApp_def Let_def)
  have n: "''blob:1'' \<noteq> []" by simp
  show ?thesis
    using upload_resets [OF u n, of Number_EPSILON "''gear.stl''" "''blob:2''"]
      reachable_loadedApp
    by (simp add: c)
qed

text \<open>
  C5: in every reachable state the point list holds at most two points, and an event
  after which the file URL, the mode, the rotation held in the state or the scale
  differs from before leaves the point list empty.
\<close>

theorem dependency_change_resets:
  assumes "reachable eps st"
  shows "((fileUrl (step eps st ev) \<noteq> fileUrl st \<or> viewerMode (step eps st ev) \<noteq> viewerMode st
           \<or> meshRotation (step eps st ev) \<noteq> meshRotation st \<or> scale (step eps st ev) \<noteq> scale st)
          \<longrightarrow> measurePoints (step eps st ev) = [])
       \<and> length (measurePoints st) \<le> 2"
proof -
  have f: "fresh st" using assms by (rule reachable_fresh)
  have "length (measurePoints st) \<le> 2" using assms by (rule reachable_points)
  moreover have "(fileUrl (step eps st ev) \<noteq> fileUrl st \<or> viewerMode (step eps st ev) \<noteq> viewerMode st
           \<or> meshRotation (step eps st ev) \<noteq> meshRotation st \<or> scale (step eps st ev) \<noteq> scale st)
          \<longrightarrow> measurePoints (step eps st ev) = []"
    using handler_rotation [OF f, of eps ev]
    by (auto simp: step_def resetEffect_def effectDeps_def)
  ultimately show ?thesis by simp
qed

lemma loadedApp_mode: "viewerMode loadedApp = MEASURE"
  by (simp add: loadedApp_def run_def step_def handleFileUpload_def setMeshRotation_def
        handleRotate90_def onClickRulerTool_def Let_def)

lemma loadedApp_points: "measurePoints loadedApp = []"
  by (simp add: loadedApp_def run_def step_def handleFileUpload_def setMeshRotation_def
        handleRotate90_def onClickRulerTool_def Let_def resetEffect_def effectDeps_def initialApp_def)

theorem dependency_change_resets_witness:
  "viewerMode (step Number_EPSILON (step Number_EPSILON loadedApp (MeshClick (hd threeClicks))) RulerToolButton) = VIEW
   \<and> measurePoints (step Number_EPSILON loadedApp (MeshClick (hd threeClicks))) = [Vector3 0 0 0]
   \<and> measurePoints (step Number_EPSILON (step Number_EPSILON loadedApp (MeshClick (hd threeClicks))) RulerToolButton) = []"
proof -
  let ?st = "step Number_EPSILON loadedApp (MeshClick (hd threeClicks))"
  have r: "reachable Number_EPSILON ?st" using reachable_loadedApp by (rule reachable_step)
  have m: "viewerMode ?st = MEASURE"
    using loadedApp_mode by (simp add: step_def handleMeshClick_def)
  have p: "measurePoints ?st = [Vector3 0 0 0]"
    using loadedApp_mode loadedApp_points
    by (simp add: step_def handleMeshClick_def resetEffect_def effectDeps_def threeClicks_def)
  have v: "viewerMode (step Number_EPSILON ?st RulerToolButton) = VIEW"
    using m by (simp add: step_def onClickRulerTool_def)
  show ?thesis
    using dependency_change_resets [OF r, of RulerToolButton] m p v by simp
qed

lemma click_step:
  "viewerMode st = MEASURE \<Longrightarrow>
     step eps st (MeshClick e) =
       st\<lparr> measurePoints := (if length (measurePoints st) \<ge> 2 then [point e]
                              else measurePoints st @ [point e]) \<rparr>"
  by (simp add: step_def handleMeshClick_def resetEffect_def effectDeps_def)

lemma clicks_snoc:
  "run eps st (map MeshClick (es @ [e])) = step eps (run eps st (map MeshClick es)) (MeshClick e)"
  by (simp add: run_def)

lemma clicks_mode: "viewerMode st = MEASURE \<Longrightarrow> viewerMode (run eps st (map MeshClick es)) = MEASURE"
  by (induction es rule: rev_induct) (simp_all add: run_def click_step)

lemma clicks_points:
  assumes "viewerMode st = MEASURE" and "measurePoints st = []"
  shows "measurePoints (run eps st (map MeshClick es))
           = drop (2 * ((length es - 1) div 2)) (map point es)"
proof (induction es rule: rev_induct)
  case Nil
  then show ?case using assms by (simp add: run_def)
next
  case (snoc e es)
  let ?n = "length es"
  have m: "viewerMode (run eps st (map MeshClick es)) = MEASURE"
    using assms(1) by (rule clicks_mode)
  have len: "length (measurePoints (run eps st (map MeshClick es))) = ?n - 2 * ((?n - 1) div 2)"
    by (simp add: snoc.IH)
  show ?case
  proof (cases "?n = 0")
    case True
    then show ?thesis using snoc.IH m by (simp add: run_def click_step)
  next
    case False
    show ?thesis
    proof (cases "even ?n")
      case True
      then obtain k where k: "?n = 2 * k" by (auto elim: evenE)
      with False have kpos: "k > 0" by simp
      have d: "(?n - 1) div 2 = k - 1" using k kpos by (cases k) simp_all
      have l2: "length (measurePoints (run eps st (map MeshClick es))) = 2"
        using len d k kpos by (cases k) simp_all
      have "measurePoints (run eps st (map MeshClick (es @ [e]))) = [point e]"
        by (simp only: clicks_snoc click_step [OF m]) (simp add: l2)
      moreover have "drop (2 * ((length (es @ [e]) - 1) div 2)) (map point (es @ [e])) = [point e]"
        using k by simp
      ultimately show ?thesis by simp
    next
      case False
      then obtain k where k: "?n = 2 * k + 1" by (auto elim: oddE)
      have d: "(?n - 1) div 2 = k" using k by simp
      have l1: "length (measurePoints (run eps st (map MeshClick es))) = 1"
        using len d k by simp
      have "measurePoints (run eps st (map MeshClick (es @ [e])))
              = measurePoints (run eps st (map MeshClick es)) @ [point e]"
        by (simp only: clicks_snoc click_step [OF m]) (simp add: l1)
      moreover have "drop (2 * ((length (es @ [e]) - 1) div 2)) (map point (es @ [e]))
              = drop (2 * k) (map point es) @ [point e]"
        using k by simp
      ultimately show ?thesis using snoc.IH d by simp
    qed
  qed
qed

lemma MeasurementTool_two:
  "MeasurementTool toFixed [p, q] =
     Some \<lparr> spheres = [(p, ''#10b981''), (q, ''#ef4444'')],
            segment = Some [p, q],
            distanceLabel = Some (Vector3_lerp p q 0.5,
              toFixed (sqrt ((vx p - vx q)\<^sup>2 + (vy p - vy q)\<^sup>2 + (vz p - vz q)\<^sup>2)) @ '' mm'') \<rparr>"
  by (cases p; cases q) (simp add: MeasurementTool_def power2_eq_square Let_def)

lemma MeasurementTool_fewer:
  "MeasurementTool toFixed [] = None"
  "MeasurementTool toFixed [p] =
     Some \<lparr> spheres = [(p, ''#10b981'')], segment = None, distanceLabel = None \<rparr>"
  by (simp_all add: MeasurementTool_def)

text \<open>
  C4: in measurement mode, starting from an empty point list, a click appends its point
  unless two points are held, in which case the list restarts with the new point alone;
  after any sequence of clicks the list holds the points of the clicks since the last
  restart, never more than two; with two points \<open>p\<close> and \<open>q\<close> held, the label shows
  their Euclidean distance, formatted by \<open>toFixed(2)\<close> and followed by \<open>mm\<close>, and with
  fewer than two points there is no label.
\<close>

theorem measure_clicks:
  assumes "viewerMode st = MEASURE" and "measurePoints st = []"
  shows "measurePoints (run eps st (map MeshClick (es @ [e]))) =
           (if length (measurePoints (run eps st (map MeshClick es))) \<ge> 2 then [point e]
            else measurePoints (run eps st (map MeshClick es)) @ [point e])
       \<and> measurePoints (run eps st (map MeshClick es))
           = drop (2 * ((length es - 1) div 2)) (map point es)
       \<and> length (measurePoints (run eps st (map MeshClick es))) \<le> 2
       \<and> (measurePoints (run eps st (map MeshClick es)) = [p, q] \<longrightarrow>
            map_option distanceLabel (MeasurementTool toFixed (measurePoints (run eps st (map MeshClick es))))
              = Some (Some (Vector3_lerp p q 0.5,
                  toFixed (sqrt ((vx p - vx q)\<^sup>2 + (vy p - vy q)\<^sup>2 + (vz p - vz q)\<^sup>2))
                    @ '' mm'')))
       \<and> (length (measurePoints (run eps st (map MeshClick es))) < 2 \<longrightarrow>
            map_option distanceLabel (MeasurementTool toFixed (measurePoints (run eps st (map MeshClick es))))
              \<in> {None, Some None})"
proof -
  let ?pts = "measurePoints (run eps st (map MeshClick es))"
  have m: "viewerMode (run eps st (map MeshClick es)) = MEASURE"
    using assms(1) by (rule clicks_mode)
  have a: "measurePoints (run eps st (map MeshClick (es @ [e]))) =
           (if length ?pts \<ge> 2 then [point e] else ?pts @ [point e])"
    by (simp only: clicks_snoc click_step [OF m]) simp
  have b: "?pts = drop (2 * ((length es - 1) div 2)) (map point es)"
    using assms by (rule clicks_points)
  have "length es - 2 * ((length es - 1) div 2) \<le> 2" by arith
  then have c: "length ?pts \<le> 2"
    by (simp add: b)
  have d: "?pts = [p, q] \<longrightarrow>
            map_option distanceLabel (MeasurementTool toFixed ?pts)
              = Some (Some (Vector3_lerp p q 0.5,
                  toFixed (sqrt ((vx p - vx q)\<^sup>2 + (vy p - vy q)\<^sup>2 + (vz p - vz q)\<^sup>2))
                    @ '' mm''))"
    by (auto simp: MeasurementTool_two)
  have e: "length ?pts < 2 \<longrightarrow>
            map_option distanceLabel (MeasurementTool toFixed ?pts) \<in> {None, Some None}"
    by (simp add: MeasurementTool_def)
  from a b c d e show ?thesis by blast
qed

theorem measure_clicks_witness:
  "measurePoints (run Number_EPSILON loadedApp (map MeshClick (take 2 threeClicks))) = [Vector3 0 0 0, Vector3 3 4 0]
   \<and> map_option distanceLabel (MeasurementTool sampleToFixed [Vector3 0 0 0, Vector3 3 4 0])
       = Some (Some (Vector3 (3/2) 2 0, ''5.00 mm''))
   \<and> measurePoints (run Number_EPSILON loadedApp (map MeshClick threeClicks)) = [Vector3 1 1 1]"
proof -
  have s25: "sqrt 25 = 5" using real_sqrt_abs [of 5] by simp
  have t: "threeClicks = take 2 threeClicks @ [\<lparr> point = Vector3 1 1 1, faceNormal = None \<rparr>]"
    by (simp add: threeClicks_def)
  have p2: "measurePoints (run Number_EPSILON loadedApp (map MeshClick (take 2 threeClicks)))
        = [Vector3 0 0 0, Vector3 3 4 0]"
    using measure_clicks [OF loadedApp_mode loadedApp_points, where es = "take 2 threeClicks"]
    by (simp add: threeClicks_def)
  have lab: "map_option distanceLabel (MeasurementTool sampleToFixed [Vector3 0 0 0, Vector3 3 4 0])
       = Some (Some (Vector3 (3/2) 2 0, ''5.00 mm''))"
    using measure_clicks [OF loadedApp_mode loadedApp_points, where es = "take 2 threeClicks"
        and p = "Vector3 0 0 0" and q = "Vector3 3 4 0" and toFixed = sampleToFixed] p2
    by (simp add: s25 sampleToFixed_def threeClicks_def)
  have p3: "measurePoints (run Number_EPSILON loadedApp (map MeshClick threeClicks)) = [Vector3 1 1 1]"
    using measure_clicks [OF loadedApp_mode loadedApp_points, where es = "take 2 threeClicks"
        and e = "\<lparr> point = Vector3 1 1 1, faceNormal = None \<rparr>"] p2 t
    by simp
  from p2 lab p3 show ?thesis by simp
qed

section \<open>Properties of the dimension computation\<close>

lemma applyMatrix4_translation:
  "Vector3_applyMatrix4 v (Matrix4_makeTranslation x y z) = Vector3_addVectors v (Vector3 x y z)"
  by (cases v) (simp add: Vector3_applyMatrix4_def Matrix4_makeTranslation_def)

lemma applyMatrix4_scale:
  "Vector3_applyMatrix4 v (Matrix4_makeScale s s s) = Vector3_multiplyScalar v s"
  by (cases v) (simp add: Vector3_applyMatrix4_def Matrix4_makeScale_def mult.commute)

lemma applyMatrix4_rotation:
  "Vector3_applyMatrix4 v (Matrix4_makeRotationFromQuaternion q) = Vector3_applyQuaternion v q"
  by (cases v; cases q)
     (simp add: Vector3_applyMatrix4_def Let_def algebra_simps)

lemma foldl_expand:
  "foldl Box3_expandByPoint (Box3 lo hi) ps =
     Box3 (Vector3 (Min (insert (vx lo) (vx ` set ps))) (Min (insert (vy lo) (vy ` set ps)))
                   (Min (insert (vz lo) (vz ` set ps))))
          (Vector3 (Max (insert (vx hi) (vx ` set ps))) (Max (insert (vy hi) (vy ` set ps)))
                   (Max (insert (vz hi) (vz ` set ps))))"
proof (induction ps arbitrary: lo hi)
  case Nil
  then show ?case by simp
next
  case (Cons p ps)
  have m: "\<And>a b A. finite A \<Longrightarrow> Min (insert (min a b) A) = Min (insert a (insert b A))"
    by (metis Min_insert Min_singleton finite.insertI insert_not_empty min.assoc)
  have M: "\<And>a b A. finite A \<Longrightarrow> Max (insert (max a b) A) = Max (insert a (insert b A))"
    by (metis Max_insert Max_singleton finite.insertI insert_not_empty max.assoc)
  show ?case
    by (cases lo; cases hi; cases p) (simp add: Cons.IH m M)
qed

lemma setFromBufferAttribute_nonempty:
  assumes "ps \<noteq> []"
  shows "Box3_setFromBufferAttribute ps =
           Box3 (Vector3 (lowest vx ps) (lowest vy ps) (lowest vz ps))
                (Vector3 (highest vx ps) (highest vy ps) (highest vz ps))"
proof -
  from assms obtain p qs where ps: "ps = p # qs" by (cases ps) auto
  show ?thesis
    by (simp add: ps Box3_setFromBufferAttribute_def foldl_expand lowest_def highest_def)
qed

lemma lowest_le_highest: "ps \<noteq> [] \<Longrightarrow> lowest f ps \<le> highest f ps"
  by (simp add: lowest_def highest_def)

lemma center_position:
  assumes "position g \<noteq> []"
  shows "position (BufferGeometry_center g) = recentered (position g)"
    and "boundingBox (BufferGeometry_center g) \<noteq> None"
proof -
  let ?ps = "position g"
  have b: "Box3_setFromBufferAttribute ?ps =
           Box3 (Vector3 (lowest vx ?ps) (lowest vy ?ps) (lowest vz ?ps))
                (Vector3 (highest vx ?ps) (highest vy ?ps) (highest vz ?ps))"
    using assms by (rule setFromBufferAttribute_nonempty)
  have ne: "\<not> (highest vx ?ps < lowest vx ?ps \<or> highest vy ?ps < lowest vy ?ps
                \<or> highest vz ?ps < lowest vz ?ps)"
    using lowest_le_highest [OF assms, of vx] lowest_le_highest [OF assms, of vy]
      lowest_le_highest [OF assms, of vz] by simp
  have pt: "\<And>v a b c. Vector3_addVectors v (Vector3 (- a) (- b) (- c))
             = Vector3_subVectors v (Vector3 a b c)"
    subgoal for v by (cases v) simp
    done
  show "position (BufferGeometry_center g) = recentered ?ps"
    using ne
    by (simp add: BufferGeometry_center_def BufferGeometry_computeBoundingBox_def b
        BufferGeometry_translate_def BufferGeometry_applyMatrix4_def Let_def
        applyMatrix4_translation pt recentered_def boxCenter_def)
  show "boundingBox (BufferGeometry_center g) \<noteq> None"
    by (simp add: BufferGeometry_center_def BufferGeometry_computeBoundingBox_def
        BufferGeometry_translate_def BufferGeometry_applyMatrix4_def Let_def)
qed

lemma layoutEffect_result:
  assumes m: "meshRef st = Some g" and ne: "position g \<noteq> []"
  shows "STLModel_layoutEffect q s st =
          (st\<lparr> meshRef := Some (BufferGeometry_center g),
               verticalOffset := Finite (- lowest vy (rotatedScaled q s (recentered (position g)))) \<rparr>,
           Some \<lparr> width = highest vx (rotatedScaled q s (recentered (position g)))
                          - lowest vx (rotatedScaled q s (recentered (position g))),
                  height = highest vy (rotatedScaled q s (recentered (position g)))
                          - lowest vy (rotatedScaled q s (recentered (position g))),
                  depth = highest vz (rotatedScaled q s (recentered (position g)))
                          - lowest vz (rotatedScaled q s (recentered (position g))),
                  volume = (highest vx (rotatedScaled q s (recentered (position g)))
                          - lowest vx (rotatedScaled q s (recentered (position g))))
                        * (highest vy (rotatedScaled q s (recentered (position g)))
                          - lowest vy (rotatedScaled q s (recentered (position g))))
                        * (highest vz (rotatedScaled q s (recentered (position g)))
                          - lowest vz (rotatedScaled q s (recentered (position g)))) \<rparr>)"
proof -
  let ?t = "rotatedScaled q s (recentered (position g))"
  have tne: "?t \<noteq> []" using ne by (simp add: rotatedScaled_def recentered_def)
  have pos: "position (BufferGeometry_scale
               (BufferGeometry_applyQuaternion (BufferGeometry_clone (BufferGeometry_center g)) q)
               s s s) = ?t"
    by (simp add: BufferGeometry_scale_def BufferGeometry_applyQuaternion_def
        BufferGeometry_clone_def BufferGeometry_applyMatrix4_def
        BufferGeometry_computeBoundingBox_def Let_def center_position(1) [OF ne]
        applyMatrix4_rotation applyMatrix4_scale rotatedScaled_def
        split: option.split)
  have box: "Box3_setFromBufferAttribute ?t =
           Box3 (Vector3 (lowest vx ?t) (lowest vy ?t) (lowest vz ?t))
                (Vector3 (highest vx ?t) (highest vy ?t) (highest vz ?t))"
    using tne by (rule setFromBufferAttribute_nonempty)
  have nonempty: "\<not> (highest vx ?t < lowest vx ?t \<or> highest vy ?t < lowest vy ?t
                \<or> highest vz ?t < lowest vz ?t)"
    using lowest_le_highest [OF tne, of vx] lowest_le_highest [OF tne, of vy]
      lowest_le_highest [OF tne, of vz] by simp
  show ?thesis
    using nonempty
    by (simp add: STLModel_layoutEffect_def m Let_def BufferGeometry_computeBoundingBox_def
        pos box)
qed

lemma vy_shift: "vy (Vector3_addVectors v (Vector3 0 d 0)) = vy v + d"
  by (cases v) simp

lemma lowest_shift:
  assumes "ps \<noteq> []"
  shows "lowest vy (map (\<lambda>v. Vector3_addVectors v (Vector3 0 d 0)) ps) = lowest vy ps + d"
proof -
  have "lowest vy (map (\<lambda>v. Vector3_addVectors v (Vector3 0 d 0)) ps)
               = Min ((\<lambda>y. y + d) ` (vy ` set ps))"
    by (simp add: lowest_def image_image vy_shift)
  also have "\<dots> = Min (vy ` set ps) + d"
    using assms by (intro mono_Min_commute [symmetric]) (auto simp: mono_def)
  finally show ?thesis by (simp add: lowest_def)
qed

lemma recentered_coords:
  assumes "ps \<noteq> []" and f: "\<And>v c. f (Vector3_subVectors v c) = f v - f c"
  shows "lowest f (recentered ps) = lowest f ps - f (boxCenter ps)"
    and "highest f (recentered ps) = highest f ps - f (boxCenter ps)"
proof -
  let ?c = "f (boxCenter ps)"
  have i: "f ` set (recentered ps) = (\<lambda>y. y - ?c) ` (f ` set ps)"
    by (simp add: recentered_def image_image f)
  have "Min ((\<lambda>y. y - ?c) ` (f ` set ps)) = Min (f ` set ps) - ?c"
    using assms(1) by (intro mono_Min_commute [symmetric]) (auto simp: mono_def)
  then show "lowest f (recentered ps) = lowest f ps - ?c"
    by (simp add: lowest_def i)
  have "Max ((\<lambda>y. y - ?c) ` (f ` set ps)) = Max (f ` set ps) - ?c"
    using assms(1) by (intro mono_Max_commute [symmetric]) (auto simp: mono_def)
  then show "highest f (recentered ps) = highest f ps - ?c"
    by (simp add: highest_def i)
qed

lemma sub_vx: "vx (Vector3_subVectors v c) = vx v - vx c"
  by (cases v; cases c) simp

lemma sub_vy: "vy (Vector3_subVectors v c) = vy v - vy c"
  by (cases v; cases c) simp

lemma sub_vz: "vz (Vector3_subVectors v c) = vz v - vz c"
  by (cases v; cases c) simp

lemma boxCenter_recentered:
  assumes "ps \<noteq> []"
  shows "boxCenter (recentered ps) = Vector3 0 0 0"
  by (simp add: boxCenter_def [of "recentered ps"]
      recentered_coords [OF assms sub_vx] recentered_coords [OF assms sub_vy]
      recentered_coords [OF assms sub_vz])
     (simp add: boxCenter_def)

text \<open>
  C1: for a mesh with at least one vertex, any quaternion \<open>q\<close> and any scale \<open>s\<close>, the
  effect leaves the geometry re-centred on the centre of its bounding box; with \<open>t\<close>
  the re-centred vertices rotated by \<open>q\<close> and then scaled by \<open>s\<close>, it reports as width,
  height and depth the extents of \<open>t\<close> along X, Y and Z (highest minus lowest) and as
  volume their product, and it sets the vertical offset to minus the lowest Y of \<open>t\<close>,
  so that the lowest vertex of \<open>t\<close> shifted by the offset has Y equal to 0.
\<close>

theorem dimension_computation:
  assumes "meshRef st = Some g" and "position g \<noteq> []"
  shows "let t = rotatedScaled q s (recentered (position g)) in
           map_option position (meshRef (fst (STLModel_layoutEffect q s st)))
             = Some (recentered (position g))
         \<and> boxCenter (recentered (position g)) = Vector3 0 0 0
         \<and> snd (STLModel_layoutEffect q s st)
             = Some \<lparr> width = highest vx t - lowest vx t,
                      height = highest vy t - lowest vy t,
                      depth = highest vz t - lowest vz t,
                      volume = (highest vx t - lowest vx t) * (highest vy t - lowest vy t)
                                 * (highest vz t - lowest vz t) \<rparr>
         \<and> verticalOffset (fst (STLModel_layoutEffect q s st)) = Finite (- lowest vy t)
         \<and> lowest vy (map (\<lambda>v. Vector3_addVectors v (Vector3 0 (- lowest vy t) 0)) t) = 0"
proof -
  have tne: "rotatedScaled q s (recentered (position g)) \<noteq> []"
    using assms(2) by (simp add: rotatedScaled_def recentered_def)
  show ?thesis
    by (simp add: Let_def layoutEffect_result [OF assms] center_position(1) [OF assms(2)]
        boxCenter_recentered [OF assms(2)] lowest_shift [OF tne])
qed

lemma sample_recentered:
  "recentered (position sampleGeometry) = [Vector3 (- 1) (- 2) (- 3), Vector3 1 2 3, Vector3 0 2 (- 3)]"
  by (simp add: recentered_def sampleGeometry_def boxCenter_def lowest_def highest_def)

lemma sample_transformed:
  "rotatedScaled (Quaternion 0 0 0 1) 2 (recentered (position sampleGeometry))
     = [Vector3 (- 2) (- 4) (- 6), Vector3 2 4 6, Vector3 0 4 (- 6)]"
  by (simp add: sample_recentered rotatedScaled_def)

theorem dimension_computation_witness:
  "snd (STLModel_layoutEffect (Quaternion 0 0 0 1) 2 sampleModel)
     = Some \<lparr> width = 4, height = 8, depth = 12, volume = 384 \<rparr>
   \<and> verticalOffset (fst (STLModel_layoutEffect (Quaternion 0 0 0 1) 2 sampleModel)) = Finite 4"
proof -
  have m: "meshRef sampleModel = Some sampleGeometry" by (simp add: sampleModel_def)
  have n: "position sampleGeometry \<noteq> []" by (simp add: sampleGeometry_def)
  show ?thesis
    using dimension_computation [OF m n, of "Quaternion 0 0 0 1" 2]
    by (simp add: Let_def sample_transformed lowest_def highest_def)
qed

lemma layoutEffect_empty:
  assumes m: "meshRef st = Some g" and e: "position g = []"
  shows "snd (STLModel_layoutEffect q s st)
           = Some \<lparr> width = 0, height = 0, depth = 0, volume = 0 \<rparr>"
  by (simp add: STLModel_layoutEffect_def m e Let_def BufferGeometry_center_def
      BufferGeometry_computeBoundingBox_def Box3_setFromBufferAttribute_def
      BufferGeometry_translate_def BufferGeometry_applyMatrix4_def BufferGeometry_clone_def
      BufferGeometry_applyQuaternion_def BufferGeometry_scale_def)

lemma rotatedScaled_one:
  "rotatedScaled q s ps = map (\<lambda>v. Vector3_multiplyScalar v s) (rotatedScaled q 1 ps)"
proof -
  have "\<And>v. Vector3_multiplyScalar v 1 = v"
    subgoal for v by (cases v) simp
    done
  then show ?thesis by (simp add: rotatedScaled_def)
qed

lemma scaled_coords:
  "vx (Vector3_multiplyScalar v s) = vx v * s"
  "vy (Vector3_multiplyScalar v s) = vy v * s"
  "vz (Vector3_multiplyScalar v s) = vz v * s"
  by (cases v, simp)+

lemma scaled_extremes:
  assumes s: "0 < s" and ne: "rs \<noteq> []"
    and f: "\<And>v. f (Vector3_multiplyScalar v s) = f v * s"
  shows "lowest f (map (\<lambda>v. Vector3_multiplyScalar v s) rs) = s * lowest f rs"
    and "highest f (map (\<lambda>v. Vector3_multiplyScalar v s) rs) = s * highest f rs"
proof -
  have i: "f ` set (map (\<lambda>v. Vector3_multiplyScalar v s) rs) = (\<lambda>y. y * s) ` (f ` set rs)"
    by (simp add: image_image f)
  have mono: "mono (\<lambda>y::real. y * s)"
    using s by (simp add: mono_def)
  have "Min ((\<lambda>y. y * s) ` (f ` set rs)) = Min (f ` set rs) * s"
    using ne mono by (intro mono_Min_commute [symmetric]) auto
  then show "lowest f (map (\<lambda>v. Vector3_multiplyScalar v s) rs) = s * lowest f rs"
    by (simp only: lowest_def i) (simp add: mult.commute)
  have "Max ((\<lambda>y. y * s) ` (f ` set rs)) = Max (f ` set rs) * s"
    using ne mono by (intro mono_Max_commute [symmetric]) auto
  then show "highest f (map (\<lambda>v. Vector3_multiplyScalar v s) rs) = s * highest f rs"
    by (simp only: highest_def i) (simp add: mult.commute)
qed

text \<open>
  C2: for a loaded mesh, any quaternion and any scale \<open>s > 0\<close>, the dimensions reported
  at scale \<open>s\<close> are those reported at scale 1 with width, height and depth multiplied by
  \<open>s\<close> and the volume multiplied by \<open>s\<^sup>3\<close>.
\<close>

theorem scaling_multiplies:
  assumes s: "0 < s" and m: "meshRef st = Some g"
  shows "snd (STLModel_layoutEffect q s st) \<noteq> None
       \<and> snd (STLModel_layoutEffect q 1 st) \<noteq> None
       \<and> map_option width (snd (STLModel_layoutEffect q s st))
           = map_option (\<lambda>d. s * width d) (snd (STLModel_layoutEffect q 1 st))
       \<and> map_option height (snd (STLModel_layoutEffect q s st))
           = map_option (\<lambda>d. s * height d) (snd (STLModel_layoutEffect q 1 st))
       \<and> map_option depth (snd (STLModel_layoutEffect q s st))
           = map_option (\<lambda>d. s * depth d) (snd (STLModel_layoutEffect q 1 st))
       \<and> map_option volume (snd (STLModel_layoutEffect q s st))
           = map_option (\<lambda>d. s ^ 3 * volume d) (snd (STLModel_layoutEffect q 1 st))"
proof (cases "position g = []")
  case True
  show ?thesis by (simp add: layoutEffect_empty [OF m True])
next
  case False
  let ?r = "rotatedScaled q 1 (recentered (position g))"
  have rne: "?r \<noteq> []" using False by (simp add: rotatedScaled_def recentered_def)
  note sc = scaled_extremes [OF s rne]
  show ?thesis
    by (simp only: layoutEffect_result [OF m False] rotatedScaled_one [of q s]
        sc(1) [where f = vx, OF scaled_coords(1)] sc(1) [where f = vy, OF scaled_coords(2)]
        sc(1) [where f = vz, OF scaled_coords(3)] sc(2) [where f = vx, OF scaled_coords(1)]
        sc(2) [where f = vy, OF scaled_coords(2)] sc(2) [where f = vz, OF scaled_coords(3)])
       (simp add: algebra_simps power3_eq_cube)
qed

theorem scaling_multiplies_witness:
  "snd (STLModel_layoutEffect (Quaternion 0 0 0 1) 1 sampleModel)
     = Some \<lparr> width = 2, height = 4, depth = 6, volume = 48 \<rparr>
   \<and> snd (STLModel_layoutEffect (Quaternion 0 0 0 1) 2 sampleModel)
     = Some \<lparr> width = 4, height = 8, depth = 12, volume = 384 \<rparr>"
proof -
  have m: "meshRef sampleModel = Some sampleGeometry" by (simp add: sampleModel_def)
  have n: "position sampleGeometry \<noteq> []" by (simp add: sampleGeometry_def)
  have s: "(0::real) < 2" by simp
  have one: "snd (STLModel_layoutEffect (Quaternion 0 0 0 1) 1 sampleModel)
     = Some \<lparr> width = 2, height = 4, depth = 6, volume = 48 \<rparr>"
    by (simp add: layoutEffect_result [OF m n] sample_recentered rotatedScaled_def
        lowest_def highest_def)
  obtain d where d: "snd (STLModel_layoutEffect (Quaternion 0 0 0 1) 2 sampleModel) = Some d"
    using scaling_multiplies [OF s m, of "Quaternion 0 0 0 1"] by auto
  have "width d = 4 \<and> height d = 8 \<and> depth d = 12 \<and> volume d = 384"
    using scaling_multiplies [OF s m, of "Quaternion 0 0 0 1"] by (simp add: one d)
  then show ?thesis by (simp add: one d)
qed


section \<open>Properties of the face alignment\<close>

lemma applyQuaternion_sandwich:
  "norm2 q = 1 \<Longrightarrow> Vector3_applyQuaternion v q = sandwich q v"
proof (cases q; cases v)
  fix a b c w x y z
  assume q: "q = Quaternion a b c w" and v: "v = Vector3 x y z" and n: "norm2 q = 1"
  from n q have w: "w * w = 1 - a * a - b * b - c * c" by simp
  show ?thesis
    by (simp add: q v Let_def w algebra_simps)
qed

lemma norm2_multiply: "norm2 (Quaternion_multiply p q) = norm2 p * norm2 q"
  by (cases p; cases q) (simp add: algebra_simps)

lemma sandwich_multiply: "sandwich (Quaternion_multiply p q) v = sandwich p (sandwich q v)"
  by (cases p; cases q; cases v) (simp add: algebra_simps)

lemma Quaternion_length_unit: "Quaternion_length q = 1 \<longleftrightarrow> norm2 q = 1"
  by (cases q) simp

lemma Vector3_length_unit: "Vector3_length v = 1 \<longleftrightarrow> vnorm2 v = 1"
  by (cases v) simp

lemma Quaternion_length_norm2: "Quaternion_length q = sqrt (norm2 q)"
  by (cases q) simp

lemma norm2_nonneg: "0 \<le> norm2 q"
  by (cases q) simp

lemma vnorm2_sandwich: "vnorm2 (sandwich q v) = norm2 q * norm2 q * vnorm2 v"
  by (cases q; cases v) (simp add: algebra_simps)

lemma normalize_unit: "Vector3_length v = 1 \<Longrightarrow> Vector3_normalize v = v"
  by (cases v) (simp add: Vector3_normalize_def Vector3_divideScalar_def)

lemma sandwich_scaled:
  "sandwich (Quaternion (a * k) (b * k) (c * k) (w * k)) v
     = Vector3_multiplyScalar (sandwich (Quaternion a b c w) v) (k * k)"
  by (cases v) (simp add: algebra_simps)

lemma norm2_scaled:
  "norm2 (Quaternion (a * k) (b * k) (c * k) (w * k)) = norm2 (Quaternion a b c w) * (k * k)"
  by (simp add: algebra_simps)

lemma normalize_positive:
  assumes "0 < norm2 p"
  shows "norm2 (Quaternion_normalize p) = 1"
    and "sandwich (Quaternion_normalize p) v = Vector3_multiplyScalar (sandwich p v) (1 / norm2 p)"
proof -
  obtain a b c w where p: "p = Quaternion a b c w" by (cases p)
  let ?l = "sqrt (norm2 p)"
  have l: "0 < ?l" using assms by simp
  have ll: "?l * ?l = norm2 p" using assms by simp
  have k: "(1 / ?l) * (1 / ?l) = 1 / norm2 p"
    using ll by (simp add: field_simps)
  have nz: "Quaternion_length p \<noteq> 0" using l by (simp add: Quaternion_length_norm2)
  have n: "Quaternion_normalize p
             = Quaternion (a * (1 / ?l)) (b * (1 / ?l)) (c * (1 / ?l)) (w * (1 / ?l))"
    using nz by (simp add: Quaternion_normalize_def Let_def Quaternion_length_norm2 p)
  have "norm2 (Quaternion_normalize p) = norm2 p * ((1 / ?l) * (1 / ?l))"
    by (subst n) (simp only: norm2_scaled p)
  then show "norm2 (Quaternion_normalize p) = 1"
    using assms by (simp only: k) simp
  show "sandwich (Quaternion_normalize p) v = Vector3_multiplyScalar (sandwich p v) (1 / norm2 p)"
    using k by (subst n) (simp only: sandwich_scaled p)
qed

lemma vnorm2_nonneg: "0 \<le> vnorm2 v"
  by (cases v) simp

text \<open>The generic branch of \<open>setFromUnitVectors\<close> towards the downward axis.\<close>

lemma arc_generic:
  assumes u: "a * a + b * b + c * c = 1" and r: "eps \<le> 1 - b" and eps_pos: "0 < eps"
  shows "Quaternion_setFromUnitVectors eps (Vector3 a b c) (Vector3 0 (- 1) 0)
           = Quaternion_normalize (Quaternion c 0 (- a) (1 - b))"
    and "0 < norm2 (Quaternion c 0 (- a) (1 - b))"
    and "sandwich (Quaternion_normalize (Quaternion c 0 (- a) (1 - b))) (Vector3 a b c)
           = Vector3 0 (- 1) 0"
proof -
  have pos: "0 < 1 - b" using r eps_pos by linarith
  show "Quaternion_setFromUnitVectors eps (Vector3 a b c) (Vector3 0 (- 1) 0)
           = Quaternion_normalize (Quaternion c 0 (- a) (1 - b))"
    using r by (simp add: Quaternion_setFromUnitVectors_def Let_def)
  have n: "norm2 (Quaternion c 0 (- a) (1 - b)) = 2 * (1 - b)"
  proof -
    have "c * c + a * a = 1 - b * b" using u by simp
    then have "c * c + a * a + (1 - b) * (1 - b) = 2 * (1 - b)" by (simp add: algebra_simps)
    then show ?thesis by simp
  qed
  show p: "0 < norm2 (Quaternion c 0 (- a) (1 - b))" using pos by (simp only: n) simp
  have cc: "c * c = 1 - a * a - b * b" using u by simp
  have s: "sandwich (Quaternion c 0 (- a) (1 - b)) (Vector3 a b c)
             = Vector3 0 (- (2 * (1 - b))) 0"
    using u by (simp add: algebra_simps) algebra
  show "sandwich (Quaternion_normalize (Quaternion c 0 (- a) (1 - b))) (Vector3 a b c)
           = Vector3 0 (- 1) 0"
    using pos by (simp only: normalize_positive(2) [OF p] s n) (simp add: field_simps)
qed

text \<open>The branch for (nearly) opposite directions: a half turn, which negates the vector.\<close>

lemma arc_opposite:
  assumes u: "a * a + b * b + c * c = 1" and r: "1 - b < eps" and e1: "eps \<le> 1"
  shows "0 < norm2 (if \<bar>a\<bar> > \<bar>c\<bar> then Quaternion (- b) a 0 0 else Quaternion 0 (- c) b 0)"
    and "Quaternion_setFromUnitVectors eps (Vector3 a b c) (Vector3 0 (- 1) 0)
           = Quaternion_normalize
               (if \<bar>a\<bar> > \<bar>c\<bar> then Quaternion (- b) a 0 0 else Quaternion 0 (- c) b 0)"
    and "sandwich (Quaternion_normalize
               (if \<bar>a\<bar> > \<bar>c\<bar> then Quaternion (- b) a 0 0 else Quaternion 0 (- c) b 0))
           (Vector3 a b c) = Vector3 (- a) (- b) (- c)"
proof -
  have bpos: "0 < b" using r e1 by linarith
  then have bb: "0 < b * b" by simp
  have n1: "0 < norm2 (Quaternion (- b) a 0 0)"
    using bb by (simp add: add_pos_nonneg)
  have n2: "0 < norm2 (Quaternion 0 (- c) b 0)"
    using bb by (simp add: add_nonneg_pos)
  show p: "0 < norm2 (if \<bar>a\<bar> > \<bar>c\<bar> then Quaternion (- b) a 0 0 else Quaternion 0 (- c) b 0)"
    using n1 n2 by simp
  show "Quaternion_setFromUnitVectors eps (Vector3 a b c) (Vector3 0 (- 1) 0)
           = Quaternion_normalize
               (if \<bar>a\<bar> > \<bar>c\<bar> then Quaternion (- b) a 0 0 else Quaternion 0 (- c) b 0)"
    using r by (simp add: Quaternion_setFromUnitVectors_def Let_def)
  have s1: "sandwich (Quaternion (- b) a 0 0) (Vector3 a b c)
              = Vector3_multiplyScalar (Vector3 (- a) (- b) (- c)) (norm2 (Quaternion (- b) a 0 0))"
    by (simp add: algebra_simps)
  have s2: "sandwich (Quaternion 0 (- c) b 0) (Vector3 a b c)
              = Vector3_multiplyScalar (Vector3 (- a) (- b) (- c)) (norm2 (Quaternion 0 (- c) b 0))"
    by (simp add: algebra_simps)
  have k: "\<And>v m. 0 < m \<Longrightarrow>
             Vector3_multiplyScalar (Vector3_multiplyScalar v m) (1 / m) = v"
    subgoal for v m by (cases v) simp
    done
  show "sandwich (Quaternion_normalize
               (if \<bar>a\<bar> > \<bar>c\<bar> then Quaternion (- b) a 0 0 else Quaternion 0 (- c) b 0))
           (Vector3 a b c) = Vector3 (- a) (- b) (- c)"
  proof (cases "\<bar>a\<bar> > \<bar>c\<bar>")
    case True
    then show ?thesis
      by (simp only: if_True normalize_positive(2) [OF n1] s1 k [OF n1])
  next
    case False
    then show ?thesis
      by (simp only: if_False normalize_positive(2) [OF n2] s2 k [OF n2])
  qed
qed

lemma dot_down: "Vector3_dot (Vector3 a b c) (Vector3 0 (- 1) 0) = - b"
  by simp

lemma alignment_of_unit:
  assumes q1: "Quaternion_length q = 1" and n1: "Vector3_length n = 1"
    and eps_pos: "0 < eps" and e1: "eps \<le> 1"
  shows "alignRotation eps q n =
           Quaternion_multiply
             (Quaternion_setFromUnitVectors eps (Vector3_applyQuaternion n q) (Vector3 0 (- 1) 0)) q
       \<and> Vector3_length (Vector3_applyQuaternion n q) = 1
       \<and> Quaternion_length (alignRotation eps q n) = 1
       \<and> Vector3_length (Vector3_applyQuaternion n (alignRotation eps q n)) = 1
       \<and> 1 - eps < Vector3_dot (Vector3_applyQuaternion n (alignRotation eps q n)) (Vector3 0 (- 1) 0)
       \<and> (eps \<le> Vector3_dot (Vector3_applyQuaternion n q) (Vector3 0 (- 1) 0) + 1 \<longrightarrow>
            Vector3_applyQuaternion (Vector3_applyQuaternion n q)
              (Quaternion_setFromUnitVectors eps (Vector3_applyQuaternion n q) (Vector3 0 (- 1) 0))
              = Vector3 0 (- 1) 0
          \<and> Vector3_applyQuaternion n (alignRotation eps q n) = Vector3 0 (- 1) 0)"
proof -
  let ?down = "Vector3 0 (- 1) 0"
  let ?wn = "Vector3_applyQuaternion n q"
  let ?A = "Quaternion_setFromUnitVectors eps ?wn ?down"
  have nq: "norm2 q = 1" using q1 by (simp add: Quaternion_length_unit)
  have nn: "vnorm2 n = 1" using n1 by (simp add: Vector3_length_unit)
  have wn: "?wn = sandwich q n" using nq by (rule applyQuaternion_sandwich)
  have nwn: "vnorm2 ?wn = 1" by (simp add: wn vnorm2_sandwich nq nn)
  then have lwn: "Vector3_length ?wn = 1" by (simp add: Vector3_length_unit)
  have al: "alignRotation eps q n = Quaternion_multiply ?A q"
    by (simp add: alignRotation_def Let_def normalize_unit [OF lwn])
  obtain a b c where abc: "?wn = Vector3 a b c" by (cases ?wn)
  have u: "a * a + b * b + c * c = 1" using nwn by (simp add: abc)
  have branch: "norm2 ?A = 1
      \<and> 1 - eps < Vector3_dot (sandwich ?A ?wn) ?down
      \<and> vnorm2 (sandwich ?A ?wn) = 1
      \<and> (eps \<le> Vector3_dot ?wn ?down + 1 \<longrightarrow> sandwich ?A ?wn = ?down)"
  proof (cases "eps \<le> 1 - b")
    case True
    note g = arc_generic [OF u True eps_pos]
    have "norm2 ?A = 1" by (simp only: abc g(1) normalize_positive(1) [OF g(2)])
    moreover have "sandwich ?A ?wn = ?down" by (simp only: abc g(1) g(3))
    ultimately show ?thesis using eps_pos by simp
  next
    case False
    then have r: "1 - b < eps" by simp
    note o = arc_opposite [OF u r e1]
    have "norm2 ?A = 1" by (simp only: abc o(2) normalize_positive(1) [OF o(1)])
    moreover have s: "sandwich ?A ?wn = Vector3 (- a) (- b) (- c)" by (simp only: abc o(2) o(3))
    moreover have "\<not> eps \<le> Vector3_dot ?wn ?down + 1"
      using r by (simp add: abc)
    moreover have "1 - eps < Vector3_dot (Vector3 (- a) (- b) (- c)) ?down"
      using r by simp
    moreover have "vnorm2 (Vector3 (- a) (- b) (- c)) = 1" using u by simp
    ultimately show ?thesis by simp
  qed
  have nA: "norm2 ?A = 1" using branch by simp
  have nal: "norm2 (alignRotation eps q n) = 1" by (simp add: al norm2_multiply nA nq)
  have res: "Vector3_applyQuaternion n (alignRotation eps q n) = sandwich ?A ?wn"
    by (simp only: applyQuaternion_sandwich [OF nal])
       (simp only: al sandwich_multiply wn)
  have arc: "Vector3_applyQuaternion ?wn ?A = sandwich ?A ?wn"
    using nA by (rule applyQuaternion_sandwich)
  show ?thesis
    using branch lwn
    by (simp only: res arc Vector3_length_unit Quaternion_length_unit nal) (simp add: al)
qed


lemma normalize_always_unit: "norm2 (Quaternion_normalize p) = 1"
proof (cases "norm2 p = 0")
  case True
  then show ?thesis by (simp add: Quaternion_normalize_def Quaternion_length_norm2)
next
  case False
  then have "0 < norm2 p" using norm2_nonneg [of p] by simp
  then show ?thesis by (rule normalize_positive(1))
qed

lemma setFromUnitVectors_unit: "norm2 (Quaternion_setFromUnitVectors eps a b) = 1"
  by (simp only: Quaternion_setFromUnitVectors_def Let_def normalize_always_unit)

lemma alignRotation_unit: "norm2 q = 1 \<Longrightarrow> norm2 (alignRotation eps q n) = 1"
  by (simp add: alignRotation_def Let_def norm2_multiply setFromUnitVectors_unit)

lemma sin_cos_unit: "sin x * sin x + cos x * cos x = (1::real)"
  using sin_cos_squared_add [of x] by (simp add: power2_eq_square)

lemma euler_x_unit: "norm2 (Quaternion_setFromEuler x 0 0) = 1"
  by (simp add: Quaternion_setFromEuler_def Let_def sin_cos_unit)

lemma defaultRotation_unit: "norm2 defaultRotation = 1"
  unfolding defaultRotation_def by (rule euler_x_unit)

lemma rotator_unit: "norm2 (Quaternion_setFromAxisAngle (Vector3 1 0 0) angle) = 1"
  by (simp add: Quaternion_setFromAxisAngle_def Let_def sin_cos_unit)

lemma unit_handler: "unitRotation st \<Longrightarrow> unitRotation (handler eps ev st)"
  by (cases ev)
     (auto simp: unitRotation_def handleFileUpload_def setMeshRotation_def
        handleDimensionsCalculated_def handleRotate90_def onClickDropFace_def
        onClickRulerTool_def onChangeScale_def handleMeshClick_def Let_def norm2_multiply
        rotator_unit alignRotation_unit euler_x_unit
        split: option.splits)

lemma reachable_unit: "reachable eps st \<Longrightarrow> unitRotation st"
proof (induction rule: reachable.induct)
  case reachable_initial
  show ?case by (simp add: unitRotation_def initialApp_def defaultRotation_unit)
next
  case (reachable_step st ev)
  then show ?case using unit_handler [of st eps ev] by (simp add: step_def unitRotation_def)
qed

text \<open>
  C3: for a threshold \<open>0 < eps \<le> 1\<close>, in a reachable state in face-alignment mode, a
  click on a face whose local normal \<open>n\<close> has unit length sets the rotation to \<open>a q\<close>,
  where \<open>q\<close> is the current rotation and \<open>a\<close> is \<open>setFromUnitVectors\<close> from the world
  normal (\<open>n\<close> transformed by \<open>q\<close>, of unit length) to the downward axis. The new
  rotation has unit length; \<open>n\<close> transformed by it has unit length and its scalar
  product with the downward axis exceeds \<open>1 - eps\<close>; and unless the world normal points
  upward to within \<open>eps\<close>, \<open>a\<close> carries the world normal onto the downward axis and
  \<open>n\<close> transformed by the new rotation is the downward axis itself.
\<close>

theorem face_alignment:
  assumes r: "reachable eps st" and m: "viewerMode st = ALIGN"
    and f: "faceNormal e = Some n" and n1: "Vector3_length n = 1"
    and eps_pos: "0 < eps" and e1: "eps \<le> 1"
  shows "quat (meshRotation (step eps st (MeshClick e))) =
           Quaternion_multiply
             (Quaternion_setFromUnitVectors eps
                (Vector3_applyQuaternion n (quat (meshRotation st))) (Vector3 0 (- 1) 0))
             (quat (meshRotation st))
       \<and> Vector3_length (Vector3_applyQuaternion n (quat (meshRotation st))) = 1
       \<and> Quaternion_length (quat (meshRotation (step eps st (MeshClick e)))) = 1
       \<and> Vector3_length
           (Vector3_applyQuaternion n (quat (meshRotation (step eps st (MeshClick e))))) = 1
       \<and> 1 - eps
           < Vector3_dot (Vector3_applyQuaternion n (quat (meshRotation (step eps st (MeshClick e)))))
               (Vector3 0 (- 1) 0)
       \<and> (eps \<le> Vector3_dot (Vector3_applyQuaternion n (quat (meshRotation st)))
                        (Vector3 0 (- 1) 0) + 1 \<longrightarrow>
            Vector3_applyQuaternion (Vector3_applyQuaternion n (quat (meshRotation st)))
              (Quaternion_setFromUnitVectors eps
                 (Vector3_applyQuaternion n (quat (meshRotation st))) (Vector3 0 (- 1) 0))
              = Vector3 0 (- 1) 0
          \<and> Vector3_applyQuaternion n (quat (meshRotation (step eps st (MeshClick e))))
              = Vector3 0 (- 1) 0)"
proof -
  have q1: "Quaternion_length (quat (meshRotation st)) = 1"
    using reachable_unit [OF r] by (simp add: unitRotation_def Quaternion_length_unit)
  have s: "quat (meshRotation (step eps st (MeshClick e))) = alignRotation eps (quat (meshRotation st)) n"
    by (simp add: step_def handleMeshClick_def m f setMeshRotation_def)
  show ?thesis
    unfolding s by (rule alignment_of_unit [OF q1 n1 eps_pos e1])
qed

theorem face_alignment_witness:
  "Vector3_applyQuaternion (Vector3 1 0 0) (quat (meshRotation (step Number_EPSILON alignState (MeshClick sideClick))))
     = Vector3 0 (- 1) 0"
proof -
  have r: "reachable Number_EPSILON alignState"
    unfolding alignState_def by (rule reachable_run) (rule reachable_initial)
  have m: "viewerMode alignState = ALIGN"
    by (simp add: alignState_def run_def step_def handleFileUpload_def setMeshRotation_def
        onClickDropFace_def Let_def)
  have q: "quat (meshRotation alignState) = defaultRotation"
    by (simp add: alignState_def run_def step_def handleFileUpload_def setMeshRotation_def
        onClickDropFace_def Let_def defaultRotation_def)
  have f: "faceNormal sideClick = Some (Vector3 1 0 0)" by (simp add: sideClick_def)
  have n: "Vector3_length (Vector3 1 0 0) = 1" by simp
  have p1: "0 < Number_EPSILON" by (simp add: Number_EPSILON_def)
  have p2: "Number_EPSILON \<le> 1" by (simp add: Number_EPSILON_def)
  have w: "Vector3_applyQuaternion (Vector3 1 0 0) defaultRotation = Vector3 1 0 0"
    by (simp add: defaultRotation_value)
  have e: "Number_EPSILON \<le> Vector3_dot (Vector3_applyQuaternion (Vector3 1 0 0) (quat (meshRotation alignState)))
             (Vector3 0 (- 1) 0) + 1"
    by (simp add: q w Number_EPSILON_def)
  show ?thesis
    using face_alignment [OF r m f n p1 p2] e by blast
qed

end
